theory Spec2Isabelle
  imports Complex_Main "HOL-Library.Word" "HOL-Library.Multiset" "HOL-Library.Signed_Division"
    "HOL-Library.AList"
begin

section \<open>Go values\<close>

text \<open>
  The validators take an \<^verbatim>\<open>interface{}\<close>. The dynamic values that the source
  distinguishes in its type switches are the constructors of \<open>gval\<close>: the kinds a JSON
  decoder produces (nil, bool, string, \<^verbatim>\<open>json.Number\<close>, \<^verbatim>\<open>[]interface{}\<close>,
  \<^verbatim>\<open>map[string]interface{}\<close>) and Go's own numeric types. Sized integers are machine
  words; \<^verbatim>\<open>int\<close> and \<^verbatim>\<open>uint\<close> are taken at 64 bits.

  Floating-point values are not computed with: \<open>float64\<close> is the type of IEEE values,
  left abstract. A \<^verbatim>\<open>float32\<close> is modelled by the value it denotes, so the widening
  conversion \<^verbatim>\<open>float64(t)\<close>, which is exact, is the identity on values.

  A Go map is an association list with distinct keys. Go leaves the order in which
  \<^verbatim>\<open>range\<close> visits a map unspecified; the order of the list stands for the order of
  the visit at hand, and a lookup \<^verbatim>\<open>m[k]\<close> is \<open>map_of m k\<close>.
\<close>

typedecl float64

datatype gval =
    GNil
  | GBool bool
  | GString string
  | GNumber string
  | GFloat32 float64
  | GFloat64 float64
  | GInt "64 word"
  | GInt8 "8 word"
  | GInt16 "16 word"
  | GInt32 "32 word"
  | GInt64 "64 word"
  | GUint "64 word"
  | GUint8 "8 word"
  | GUint16 "16 word"
  | GUint32 "32 word"
  | GUint64 "64 word"
  | GSlice "gval list"
  | GMap "(string \<times> gval) list"

datatype ValidationError = ValidationError (Description: string)

text \<open>
  A validator returns its list of errors, or panics. The run-time panics of the
  modelled code are the integer division by zero and the call of a method that reads
  a field through a nil \<^verbatim>\<open>*Schema\<close>. A nil slice of errors and an empty one are
  both \<open>[]\<close>: no validator of the source returns an empty slice that is not nil.
\<close>

datatype go_panic = DivideByZero | NilDereference

type_synonym result = "go_panic + ValidationError list"

section \<open>Formatting and parsing of integers\<close>

text \<open>\<^verbatim>\<open>fmt\<close>'s verb \<^verbatim>\<open>%d\<close>, and \<^verbatim>\<open>strconv.ParseInt(s, 10, 64)\<close> as
  \<^verbatim>\<open>json.Number.Int64\<close> calls it (\<open>None\<close> when it returns an error: no digit, a
  character that is not a digit, or a value outside the signed 64-bit range).\<close>

definition digit_char :: "nat \<Rightarrow> char" where
  "digit_char d = ''0123456789'' ! d"

fun nat_digits :: "nat \<Rightarrow> string" where
  "nat_digits n =
     (if n < 10 then [digit_char n] else nat_digits (n div 10) @ [digit_char (n mod 10)])"

definition fmt_d :: "int \<Rightarrow> string" where
  "fmt_d i = (if i < 0 then CHR ''-'' # nat_digits (nat (- i)) else nat_digits (nat i))"

definition digit_of :: "char \<Rightarrow> nat option" where
  "digit_of c =
     (let k = (of_char c :: nat) in if 48 \<le> k \<and> k \<le> 57 then Some (k - 48) else None)"

fun parse_digits :: "string \<Rightarrow> nat \<Rightarrow> nat option" where
  "parse_digits [] acc = Some acc"
| "parse_digits (c # cs) acc =
     (case digit_of c of None \<Rightarrow> None | Some d \<Rightarrow> parse_digits cs (acc * 10 + d))"

definition ParseInt :: "string \<Rightarrow> 64 word option" where
  "ParseInt s =
     (let (neg, ds) =
        (case s of
           [] \<Rightarrow> (False, s)
         | c # r \<Rightarrow>
             if c = CHR ''+'' then (False, r)
             else if c = CHR ''-'' then (True, r)
             else (False, s))
      in if ds = [] then None
         else (case parse_digits ds 0 of
                 None \<Rightarrow> None
               | Some n \<Rightarrow>
                   if neg then (if n \<le> 2 ^ 63 then Some (word_of_int (- int n)) else None)
                   else (if n < 2 ^ 63 then Some (word_of_nat n) else None)))"

section \<open>normalizeNumber\<close>

text \<open>The pair is the source's \<^verbatim>\<open>(n, err)\<close>; the error is its message.\<close>

fun normalizeNumber :: "gval \<Rightarrow> gval \<times> string option" where
  "normalizeNumber (GFloat32 t) = (GFloat64 t, None)"
| "normalizeNumber (GFloat64 t) = (GFloat64 t, None)"
| "normalizeNumber (GInt t) = (GInt64 t, None)"
| "normalizeNumber (GInt8 t) = (GInt64 (scast t), None)"
| "normalizeNumber (GInt16 t) = (GInt64 (scast t), None)"
| "normalizeNumber (GInt32 t) = (GInt64 (scast t), None)"
| "normalizeNumber (GInt64 t) = (GInt64 t, None)"
| "normalizeNumber (GUint8 t) = (GInt64 (ucast t), None)"
| "normalizeNumber (GUint16 t) = (GInt64 (ucast t), None)"
| "normalizeNumber (GUint32 t) = (GInt64 (ucast t), None)"
| "normalizeNumber (GUint64 t) = (GUint64 t, Some ''uint64 is not a supported type.'')"
| "normalizeNumber t = (t, None)"

section \<open>JSON documents\<close>

text \<open>
  The bytes handed to an \<^verbatim>\<open>UnmarshalJSON\<close> method, and a \<^verbatim>\<open>json.RawMessage\<close>,
  are a syntactically valid JSON text: they are modelled by its syntax tree, a number
  by its literal. \<open>go_map\<close> builds a Go map from the members of an object: of two
  members with one key the later wins.
\<close>

datatype json =
    JNull
  | JBool bool
  | JNumber string
  | JString string
  | JArray "json list"
  | JObject "(string \<times> json) list"

text \<open>An \<^verbatim>\<open>error\<close> value: one of \<^verbatim>\<open>encoding/json\<close>, one of
  \<^verbatim>\<open>strconv\<close>, or one made by \<^verbatim>\<open>errors.New\<close>.\<close>

datatype go_error = UnmarshalTypeError | NumError | ErrorString string

definition go_map :: "(string \<times> 'a) list \<Rightarrow> (string \<times> 'a) list" where
  "go_map kvs = fold (\<lambda>(k, v) m. AList.update k v m) kvs []"

section \<open>multipleOf\<close>

type_synonym multipleOf = "64 word"

text \<open>Go's \<^verbatim>\<open>%\<close> on \<^verbatim>\<open>int64\<close>, for a divisor that is not zero: the remainder has
  the sign of the dividend.\<close>

definition int64_rem :: "64 word \<Rightarrow> 64 word \<Rightarrow> 64 word" where
  "int64_rem n d = word_of_int (sint n smod sint d)"

definition multipleOf_Validate :: "multipleOf \<Rightarrow> gval \<Rightarrow> result" where
  "multipleOf_Validate m v =
     (case normalizeNumber v of
        (normalized, Some err) \<Rightarrow> Inr [ValidationError err]
      | (normalized, None) \<Rightarrow>
          (case normalized of
             GInt64 n \<Rightarrow>
               if m = 0 then Inl DivideByZero
               else if int64_rem n m \<noteq> 0
               then Inr [ValidationError (''Value must be a multiple of '' @ fmt_d (sint m) @ ''.'')]
               else Inr []
           | _ \<Rightarrow> Inr []))"

text \<open>\<^verbatim>\<open>json.Unmarshal(b, &n)\<close> for \<^verbatim>\<open>var n int64\<close>: a number literal must pass
  \<open>ParseInt\<close>; \<^verbatim>\<open>null\<close> leaves \<open>n\<close> at zero without an error.\<close>

definition multipleOf_UnmarshalJSON :: "json \<Rightarrow> go_error + multipleOf" where
  "multipleOf_UnmarshalJSON b =
     (case b of
        JNumber lit \<Rightarrow> (case ParseInt lit of None \<Rightarrow> Inl UnmarshalTypeError | Some n \<Rightarrow> Inr n)
      | JNull \<Rightarrow> Inr 0
      | _ \<Rightarrow> Inl UnmarshalTypeError)"

section \<open>Schema\<close>

text \<open>
  \<^verbatim>\<open>Schema.Validators\<close> is a slice of functions; a function of the model returns
  its errors or panics. A \<^verbatim>\<open>*Schema\<close> is a \<open>Schema option\<close>, nil being \<open>None\<close>:
  \<^verbatim>\<open>Validate\<close> has a pointer receiver and reads \<^verbatim>\<open>s.Validators\<close>, so a call on nil
  panics. \<^verbatim>\<open>normalizeType\<close> is not among the sources; it is the parameter \<open>nT\<close> of
  every function that validates against a schema.
\<close>

type_synonym validator = "gval \<Rightarrow> result"

record Schema =
  Validators :: "validator list"

fun run_validators :: "validator list \<Rightarrow> gval \<Rightarrow> ValidationError list \<Rightarrow> result" where
  "run_validators [] data valErrs = Inr valErrs"
| "run_validators (validator # rest) data valErrs =
     (case validator data of
        Inl p \<Rightarrow> Inl p
      | Inr errs \<Rightarrow> run_validators rest data (valErrs @ errs))"

definition Schema_Validate :: "(gval \<Rightarrow> gval) \<Rightarrow> Schema option \<Rightarrow> gval \<Rightarrow> result" where
  "Schema_Validate nT s dataStruct =
     (case s of
        None \<Rightarrow> Inl NilDereference
      | Some sch \<Rightarrow> run_validators (Validators sch) (nT dataStruct) [])"

text \<open>
  \<^verbatim>\<open>decoder.Decode(&store)\<close> after \<^verbatim>\<open>UseNumber()\<close>, on bytes that are valid JSON.
\<close>

primrec decode_value :: "json \<Rightarrow> gval" where
  "decode_value JNull = GNil"
| "decode_value (JBool b) = GBool b"
| "decode_value (JNumber lit) = GNumber lit"
| "decode_value (JString s) = GString s"
| "decode_value (JArray xs) = GSlice (map decode_value xs)"
| "decode_value (JObject kvs) = GMap (go_map (map (map_prod id decode_value) kvs))"

text \<open>
  The constructors \<^verbatim>\<open>Minimum\<close> and \<^verbatim>\<open>Properties\<close> that \<^verbatim>\<open>Schema.UnmarshalJSON\<close>
  calls are not among the sources: they are parameters. The receiver \<open>s\<close> is returned
  updated.
\<close>

definition Schema_UnmarshalJSON ::
  "(gval \<Rightarrow> validator) \<Rightarrow> (gval \<Rightarrow> validator) \<Rightarrow> Schema \<Rightarrow> json \<Rightarrow> go_error + Schema" where
  "Schema_UnmarshalJSON Minimum Properties s bts =
     (case decode_value bts of
        GMap schemaMap \<Rightarrow>
          (let s1 = (case map_of schemaMap ''minimum'' of
                       Some min' \<Rightarrow> s\<lparr>Validators := Validators s @ [Minimum min']\<rparr>
                     | None \<Rightarrow> s);
               s2 = (case map_of schemaMap ''properties'' of
                       Some prop \<Rightarrow> s1\<lparr>Validators := Validators s1 @ [Properties prop]\<rparr>
                     | None \<Rightarrow> s1)
           in Inr s2)
      | _ \<Rightarrow> Inl (ErrorString ''Schema must be of the type `map[string]interface{}`.''))"

section \<open>maximum and minimum\<close>

text \<open>
  The struct embeds a \<^verbatim>\<open>json.Number\<close>, a string holding the literal. \<^verbatim>\<open>Int64\<close> is
  \<open>ParseInt\<close>. The floating-point operations the float branch uses
  (\<^verbatim>\<open>strconv.ParseFloat(s, 64)\<close>, \<open>None\<close> when it returns an error; the conversion
  \<^verbatim>\<open>float64(n)\<close>; \<^verbatim>\<open>>\<close> and \<^verbatim>\<open>==\<close>) are the fields of the parameter \<open>fl\<close>.
  \<^verbatim>\<open>%s\<close> prints the struct by the promoted \<^verbatim>\<open>String\<close> method: the literal.
\<close>

record float_ops =
  ParseFloat :: "string \<Rightarrow> float64 option"
  float64_of_int64 :: "64 word \<Rightarrow> float64"
  float64_gt :: "float64 \<Rightarrow> float64 \<Rightarrow> bool"
  float64_eq :: "float64 \<Rightarrow> float64 \<Rightarrow> bool"

record maximum =
  Number :: string
  exclusive :: bool

definition maximum_isLargerThanFloat :: "float_ops \<Rightarrow> maximum \<Rightarrow> float64 \<Rightarrow> go_error + bool" where
  "maximum_isLargerThanFloat fl m n =
     (case ParseFloat fl (maximum.Number m) of
        None \<Rightarrow> Inl NumError
      | Some max' \<Rightarrow>
          Inr (float64_gt fl max' n \<or> \<not> maximum.exclusive m \<and> float64_eq fl max' n))"

definition maximum_isLargerThanInt :: "float_ops \<Rightarrow> maximum \<Rightarrow> 64 word \<Rightarrow> go_error + bool" where
  "maximum_isLargerThanInt fl m n =
     (if CHR ''.'' \<notin> set (maximum.Number m)
      then (case ParseInt (maximum.Number m) of
              None \<Rightarrow> Inl NumError
            | Some max' \<Rightarrow> Inr (sint max' > sint n \<or> \<not> maximum.exclusive m \<and> max' = n))
      else maximum_isLargerThanFloat fl m (float64_of_int64 fl n))"

definition maximum_Validate :: "float_ops \<Rightarrow> maximum \<Rightarrow> gval \<Rightarrow> result" where
  "maximum_Validate fl m v =
     (case normalizeNumber v of
        (normalized, Some err) \<Rightarrow> Inr [ValidationError err]
      | (normalized, None) \<Rightarrow>
          (case (case normalized of
                   GInt64 n \<Rightarrow> Some (maximum_isLargerThanInt fl m n)
                 | GFloat64 n \<Rightarrow> Some (maximum_isLargerThanFloat fl m n)
                 | _ \<Rightarrow> None) of
             None \<Rightarrow> Inr []
           | Some (Inl err) \<Rightarrow> Inr []
           | Some (Inr isLarger) \<Rightarrow>
               if \<not> isLarger
               then Inr [ValidationError (''Value must be smaller than '' @ maximum.Number m @ ''.'')]
               else Inr []))"

record minimum =
  Number :: string
  exclusive :: bool

definition minimum_isLargerThanFloat :: "float_ops \<Rightarrow> minimum \<Rightarrow> float64 \<Rightarrow> go_error + bool" where
  "minimum_isLargerThanFloat fl m n =
     (case ParseFloat fl (minimum.Number m) of
        None \<Rightarrow> Inl NumError
      | Some min' \<Rightarrow>
          Inr (float64_gt fl min' n \<or> \<not> minimum.exclusive m \<and> float64_eq fl min' n))"

definition minimum_isLargerThanInt :: "float_ops \<Rightarrow> minimum \<Rightarrow> 64 word \<Rightarrow> go_error + bool" where
  "minimum_isLargerThanInt fl m n =
     (if CHR ''.'' \<notin> set (minimum.Number m)
      then (case ParseInt (minimum.Number m) of
              None \<Rightarrow> Inr False
            | Some min' \<Rightarrow> Inr (sint min' > sint n \<or> \<not> minimum.exclusive m \<and> min' = n))
      else minimum_isLargerThanFloat fl m (float64_of_int64 fl n))"

definition minimum_Validate :: "float_ops \<Rightarrow> minimum \<Rightarrow> gval \<Rightarrow> result" where
  "minimum_Validate fl m v =
     (case normalizeNumber v of
        (normalized, Some err) \<Rightarrow> Inr [ValidationError err]
      | (normalized, None) \<Rightarrow>
          (case (case normalized of
                   GInt64 n \<Rightarrow> Some (minimum_isLargerThanInt fl m n)
                 | GFloat64 n \<Rightarrow> Some (minimum_isLargerThanFloat fl m n)
                 | _ \<Rightarrow> None) of
             None \<Rightarrow> Inr []
           | Some (Inl err) \<Rightarrow> Inr []
           | Some (Inr isLarger) \<Rightarrow>
               if isLarger
               then Inr [ValidationError (''Value must be larger than '' @ minimum.Number m @ ''.'')]
               else Inr []))"

text \<open>
  \<^verbatim>\<open>json.Unmarshal(value, &b)\<close> for a \<^verbatim>\<open>bool\<close>, its error dropped as the callers
  do: a JSON boolean is stored, anything else leaves \<open>b\<close> as it was. \<open>v\<close> is the map of
  the raw members of the enclosing schema object.
\<close>

definition Unmarshal_bool :: "json \<Rightarrow> bool \<Rightarrow> bool" where
  "Unmarshal_bool raw b = (case raw of JBool x \<Rightarrow> x | _ \<Rightarrow> b)"

definition maximum_SetSchema :: "maximum \<Rightarrow> (string \<times> json) list \<Rightarrow> maximum" where
  "maximum_SetSchema m v =
     (case map_of v ''exclusiveMaximum'' of
        Some val \<Rightarrow> m\<lparr>maximum.exclusive := Unmarshal_bool val (maximum.exclusive m)\<rparr>
      | None \<Rightarrow> m)"

definition minimum_SetSchema :: "minimum \<Rightarrow> (string \<times> json) list \<Rightarrow> minimum" where
  "minimum_SetSchema m v =
     (case map_of v ''exclusiveminimum'' of
        Some val \<Rightarrow> m\<lparr>minimum.exclusive := Unmarshal_bool val (minimum.exclusive m)\<rparr>
      | None \<Rightarrow> m)"

section \<open>allOf and oneOf\<close>

text \<open>
  \<^verbatim>\<open>EmbeddedSchemas\<close> is a \<^verbatim>\<open>map[string]*Schema\<close>; the loops are the source's
  \<^verbatim>\<open>range\<close> loops, with their accumulators as arguments. \<^verbatim>\<open>schema.Validate(v) == nil\<close>
  is modelled as "returns the empty list".
\<close>

record allOf =
  EmbeddedSchemas :: "(string \<times> Schema option) list"



record oneOf =
  EmbeddedSchemas :: "(string \<times> Schema option) list"

fun oneOf_range ::
  "(gval \<Rightarrow> gval) \<Rightarrow> (string \<times> Schema option) list \<Rightarrow> gval \<Rightarrow> int \<Rightarrow> go_panic + int" where
  "oneOf_range nT [] v succeeded = Inr succeeded"
| "oneOf_range nT ((key, schema) # rest) v succeeded =
     (case Schema_Validate nT schema v of
        Inl p \<Rightarrow> Inl p
      | Inr errs \<Rightarrow> oneOf_range nT rest v (if errs = [] then succeeded + 1 else succeeded))"

definition oneOf_Validate :: "(gval \<Rightarrow> gval) \<Rightarrow> oneOf \<Rightarrow> gval \<Rightarrow> result" where
  "oneOf_Validate nT o' v =
     (case oneOf_range nT (oneOf.EmbeddedSchemas o') v 0 of
        Inl p \<Rightarrow> Inl p
      | Inr succeeded \<Rightarrow>
          if succeeded \<noteq> 1
          then Inr [ValidationError
                 (''Validation passed for '' @ fmt_d succeeded @ '' schemas in 'oneOf'.'')]
          else Inr [])"

section \<open>items\<close>

text \<open>\<^verbatim>\<open>schemaSlice\<close> is \<open>None\<close> for the nil slice, which the source tells from an
  empty one.\<close>

record items =
  EmbeddedSchemas :: "(string \<times> Schema option) list"
  schema :: "Schema option"
  schemaSlice :: "Schema option list option"
  additionalAllowed :: bool
  additionalItems :: "Schema option"

fun items_each ::
  "(gval \<Rightarrow> gval) \<Rightarrow> Schema option \<Rightarrow> gval list \<Rightarrow> ValidationError list \<Rightarrow> result" where
  "items_each nT s [] valErrs = Inr valErrs"
| "items_each nT s (val # rest) valErrs =
     (case Schema_Validate nT s val of
        Inl p \<Rightarrow> Inl p
      | Inr errs \<Rightarrow> items_each nT s rest (valErrs @ errs))"

fun items_tuple ::
  "(gval \<Rightarrow> gval) \<Rightarrow> items \<Rightarrow> Schema option list \<Rightarrow> nat \<Rightarrow> gval list \<Rightarrow> ValidationError list
     \<Rightarrow> result" where
  "items_tuple nT i sl pos [] valErrs = Inr valErrs"
| "items_tuple nT i sl pos (val # rest) valErrs =
     (if int pos \<le> int (length sl) - 1
      then (case Schema_Validate nT (sl ! pos) val of
              Inl p \<Rightarrow> Inl p
            | Inr errs \<Rightarrow> items_tuple nT i sl (pos + 1) rest (valErrs @ errs))
      else if additionalAllowed i
      then (case additionalItems i of
              None \<Rightarrow> items_tuple nT i sl (pos + 1) rest valErrs
            | Some a \<Rightarrow>
                (case Schema_Validate nT (Some a) val of
                   Inl p \<Rightarrow> Inl p
                 | Inr errs \<Rightarrow> items_tuple nT i sl (pos + 1) rest (valErrs @ errs)))
      else Inr [ValidationError ''Additional items aren't allowed.''])"

definition items_Validate :: "(gval \<Rightarrow> gval) \<Rightarrow> items \<Rightarrow> gval \<Rightarrow> result" where
  "items_Validate nT i v =
     (case v of
        GSlice instances \<Rightarrow>
          (case items.schema i of
             Some s \<Rightarrow> items_each nT (Some s) instances []
           | None \<Rightarrow>
               (case schemaSlice i of
                  Some sl \<Rightarrow> items_tuple nT i sl 0 instances []
                | None \<Rightarrow> Inr []))
      | _ \<Rightarrow> Inr [])"

section \<open>dependencies\<close>

text \<open>A \<^verbatim>\<open>propertySet\<close> is a \<^verbatim>\<open>map[string]struct{}\<close>: the list of its keys, in
  the order of the visit.\<close>

record dependencies =
  EmbeddedSchemas :: "(string \<times> Schema option) list"
  propertyDeps :: "(string \<times> string list) list"





text \<open>
  The decoder. \<^verbatim>\<open>json.Unmarshal\<close> into a \<^verbatim>\<open>map[string]json.RawMessage\<close> takes an
  object, and leaves the nil map on \<^verbatim>\<open>null\<close>; into a fresh \<^verbatim>\<open>Schema\<close> it calls
  \<open>Schema_UnmarshalJSON\<close>; into a \<^verbatim>\<open>[]string\<close> it takes \<^verbatim>\<open>null\<close> and an array of
  strings, in which a \<^verbatim>\<open>null\<close> leaves the empty string. The receiver's map
  \<^verbatim>\<open>EmbeddedSchemas\<close> is allocated by the caller.
\<close>

definition Unmarshal_RawMessages :: "json \<Rightarrow> go_error + (string \<times> json) list" where
  "Unmarshal_RawMessages b =
     (case b of
        JObject kvs \<Rightarrow> Inr (go_map kvs)
      | JNull \<Rightarrow> Inr []
      | _ \<Rightarrow> Inl UnmarshalTypeError)"

definition Unmarshal_strings :: "json \<Rightarrow> go_error + string list" where
  "Unmarshal_strings b =
     (case b of
        JNull \<Rightarrow> Inr []
      | JArray xs \<Rightarrow>
          if list_all (\<lambda>x. case x of JString s \<Rightarrow> True | JNull \<Rightarrow> True | _ \<Rightarrow> False) xs
          then Inr (map (\<lambda>x. case x of JString s \<Rightarrow> s | _ \<Rightarrow> []) xs)
          else Inl UnmarshalTypeError
      | _ \<Rightarrow> Inl UnmarshalTypeError)"

fun dependencies_decode_schemas ::
  "(gval \<Rightarrow> validator) \<Rightarrow> (gval \<Rightarrow> validator) \<Rightarrow> (string \<times> json) list
     \<Rightarrow> (string \<times> Schema option) list \<Rightarrow> (string \<times> Schema option) list" where
  "dependencies_decode_schemas Minimum Properties [] es = es"
| "dependencies_decode_schemas Minimum Properties ((k, v) # rest) es =
     (case Schema_UnmarshalJSON Minimum Properties \<lparr>Validators = []\<rparr> v of
        Inl err \<Rightarrow> dependencies_decode_schemas Minimum Properties rest es
      | Inr s \<Rightarrow> dependencies_decode_schemas Minimum Properties rest (AList.update k (Some s) es))"

fun dependencies_decode_props ::
  "(string \<times> json) list \<Rightarrow> (string \<times> string list) list \<Rightarrow> (string \<times> string list) list" where
  "dependencies_decode_props [] pd = pd"
| "dependencies_decode_props ((k, v) # rest) pd =
     (case Unmarshal_strings v of
        Inl err \<Rightarrow> dependencies_decode_props rest pd
      | Inr props \<Rightarrow> dependencies_decode_props rest (AList.update k (remdups props) pd))"

definition dependencies_UnmarshalJSON ::
  "(gval \<Rightarrow> validator) \<Rightarrow> (gval \<Rightarrow> validator) \<Rightarrow> dependencies \<Rightarrow> json \<Rightarrow> go_error + dependencies" where
  "dependencies_UnmarshalJSON Minimum Properties d b =
     (case Unmarshal_RawMessages b of
        Inl err \<Rightarrow> Inl err
      | Inr c \<Rightarrow>
          (let es = dependencies_decode_schemas Minimum Properties c (dependencies.EmbeddedSchemas d);
               pd = dependencies_decode_props c []
           in if length pd = 0 \<and> length es = 0
              then Inl (ErrorString ''no valid schema or property dependency validators'')
              else Inr \<lparr>dependencies.EmbeddedSchemas = es, propertyDeps = pd\<rparr>))"

section \<open>patternProperties and properties\<close>

text \<open>A compiled \<^verbatim>\<open>regexp.Regexp\<close> is its source text and the predicate that
  \<^verbatim>\<open>MatchString\<close> computes. A lookup in a \<^verbatim>\<open>map[string]*Schema\<close> gives nil for a
  key that is absent.\<close>

record Regexp =
  expr :: string
  MatchString :: "string \<Rightarrow> bool"

definition lookup_schema :: "(string \<times> Schema option) list \<Rightarrow> string \<Rightarrow> Schema option" where
  "lookup_schema m k = (case map_of m k of None \<Rightarrow> None | Some s \<Rightarrow> s)"

record patternProperties =
  EmbeddedSchemas :: "(string \<times> Schema option) list"
  object :: "(string \<times> Regexp) list"
  propertiesIsNeighbor :: bool

fun patternProperties_patterns ::
  "(gval \<Rightarrow> gval) \<Rightarrow> patternProperties \<Rightarrow> (string \<times> Regexp) list \<Rightarrow> string \<Rightarrow> gval
     \<Rightarrow> ValidationError list \<Rightarrow> result" where
  "patternProperties_patterns nT p [] dataKey dataVal valErrs = Inr valErrs"
| "patternProperties_patterns nT p ((key, val) # rest) dataKey dataVal valErrs =
     (if MatchString val dataKey
      then (case Schema_Validate nT (lookup_schema (patternProperties.EmbeddedSchemas p) key) dataVal of
              Inl e \<Rightarrow> Inl e
            | Inr errs \<Rightarrow> patternProperties_patterns nT p rest dataKey dataVal (valErrs @ errs))
      else patternProperties_patterns nT p rest dataKey dataVal valErrs)"

fun patternProperties_range ::
  "(gval \<Rightarrow> gval) \<Rightarrow> patternProperties \<Rightarrow> (string \<times> gval) list \<Rightarrow> ValidationError list \<Rightarrow> result" where
  "patternProperties_range nT p [] valErrs = Inr valErrs"
| "patternProperties_range nT p ((dataKey, dataVal) # rest) valErrs =
     (case patternProperties_patterns nT p (object p) dataKey dataVal valErrs of
        Inl e \<Rightarrow> Inl e
      | Inr valErrs' \<Rightarrow> patternProperties_range nT p rest valErrs')"

definition patternProperties_Validate ::
  "(gval \<Rightarrow> gval) \<Rightarrow> patternProperties \<Rightarrow> gval \<Rightarrow> result" where
  "patternProperties_Validate nT p v =
     (if propertiesIsNeighbor p = True then Inr []
      else (case v of
              GMap data \<Rightarrow> patternProperties_range nT p data []
            | _ \<Rightarrow> Inr []))"

definition patternProperties_SetSchema ::
  "patternProperties \<Rightarrow> (string \<times> json) list \<Rightarrow> patternProperties" where
  "patternProperties_SetSchema p v =
     (if map_of v ''properties'' \<noteq> None then p\<lparr>propertiesIsNeighbor := True\<rparr> else p)"

record properties =
  EmbeddedSchemas :: "(string \<times> Schema option) list"
  patternProperties :: "patternProperties option"
  additionalPropertiesBool :: bool
  additionalPropertiesObject :: "Schema option"

text \<open>The inner loop over the patterns carries \<^verbatim>\<open>valErrs\<close> and \<^verbatim>\<open>match\<close>.\<close>

fun properties_patterns ::
  "(gval \<Rightarrow> gval) \<Rightarrow> patternProperties \<Rightarrow> (string \<times> Regexp) list \<Rightarrow> string \<Rightarrow> gval
     \<Rightarrow> ValidationError list \<times> bool \<Rightarrow> go_panic + ValidationError list \<times> bool" where
  "properties_patterns nT pp [] dataKey dataVal st = Inr st"
| "properties_patterns nT pp ((key, val) # rest) dataKey dataVal (valErrs, match) =
     (if MatchString val dataKey
      then (case Schema_Validate nT (lookup_schema (patternProperties.EmbeddedSchemas pp) key) dataVal of
              Inl e \<Rightarrow> Inl e
            | Inr errs \<Rightarrow> properties_patterns nT pp rest dataKey dataVal (valErrs @ errs, True))
      else properties_patterns nT pp rest dataKey dataVal (valErrs, match))"

text \<open>One pass of the body of the loop over the instance's members: the new
  \<^verbatim>\<open>valErrs\<close>.\<close>

definition properties_member ::
  "(gval \<Rightarrow> gval) \<Rightarrow> properties \<Rightarrow> string \<Rightarrow> gval \<Rightarrow> ValidationError list \<Rightarrow> result" where
  "properties_member nT p dataKey dataVal valErrs =
     (case (case map_of (properties.EmbeddedSchemas p) dataKey of
              Some sch \<Rightarrow>
                (case Schema_Validate nT sch dataVal of
                   Inl e \<Rightarrow> Inl e
                 | Inr errs \<Rightarrow> Inr (valErrs @ errs, True))
            | None \<Rightarrow> Inr (valErrs, False)) of
        Inl e \<Rightarrow> Inl e
      | Inr st \<Rightarrow>
          (case (case properties.patternProperties p of
                   Some pp \<Rightarrow> properties_patterns nT pp (object pp) dataKey dataVal st
                 | None \<Rightarrow> Inr st) of
             Inl e \<Rightarrow> Inl e
           | Inr (valErrs', match) \<Rightarrow>
               if match then Inr valErrs'
               else (case additionalPropertiesObject p of
                       Some a \<Rightarrow>
                         (case Schema_Validate nT (Some a) dataVal of
                            Inl e \<Rightarrow> Inl e
                          | Inr errs \<Rightarrow> Inr (valErrs' @ errs))
                     | None \<Rightarrow>
                         if \<not> additionalPropertiesBool p
                         then Inr [ValidationError ''Additional properties aren't allowed'']
                         else Inr valErrs')))"

fun properties_range ::
  "(gval \<Rightarrow> gval) \<Rightarrow> properties \<Rightarrow> (string \<times> gval) list \<Rightarrow> ValidationError list \<Rightarrow> result" where
  "properties_range nT p [] valErrs = Inr valErrs"
| "properties_range nT p ((dataKey, dataVal) # rest) valErrs =
     (case properties_member nT p dataKey dataVal valErrs of
        Inl e \<Rightarrow> Inl e
      | Inr valErrs' \<Rightarrow> properties_range nT p rest valErrs')"

definition properties_Validate :: "(gval \<Rightarrow> gval) \<Rightarrow> properties \<Rightarrow> gval \<Rightarrow> result" where
  "properties_Validate nT p v =
     (case v of
        GMap dataMap \<Rightarrow> properties_range nT p dataMap []
      | _ \<Rightarrow> Inr [])"

text \<open>
  Modelled from the spec: the type \<^verbatim>\<open>Node\<close> of the sibling nodes ("the sibling-linking
  pass that lets keywords coordinate") is not among the sources. It has the two fields
  that \<^verbatim>\<open>GetNeighboringSchemas\<close> reads; \<open>Validator\<close> is the interface value by its
  dynamic type, as the type assertion \<^verbatim>\<open>v.Validator.(*patternProperties)\<close> tells it.
\<close>

datatype Validator =
    PatternPropertiesPtr patternProperties
  | OtherValidator

record Node =
  EmbeddedSchemas :: "(string \<times> Schema option) list"
  Validator :: Validator

definition properties_GetNeighboringSchemas ::
  "properties \<Rightarrow> (string \<times> Node) list \<Rightarrow> properties" where
  "properties_GetNeighboringSchemas p nodes =
     (case map_of nodes ''patternProperties'' of
        None \<Rightarrow> p
      | Some v \<Rightarrow>
          (case Node.Validator v of
             PatternPropertiesPtr v2 \<Rightarrow> p\<lparr>properties.patternProperties := Some v2\<rparr>
           | _ \<Rightarrow> p))"

text \<open>\<^verbatim>\<open>json.Unmarshal\<close> into a \<^verbatim>\<open>**Schema\<close>: \<^verbatim>\<open>null\<close> sets the pointer to nil
  without an error; any other value is decoded into the Schema pointed to, a new one
  when the pointer is nil.\<close>

definition Unmarshal_SchemaPtr ::
  "(gval \<Rightarrow> validator) \<Rightarrow> (gval \<Rightarrow> validator) \<Rightarrow> Schema option \<Rightarrow> json \<Rightarrow> go_error + Schema option" where
  "Unmarshal_SchemaPtr Minimum Properties cur raw =
     (case raw of
        JNull \<Rightarrow> Inr None
      | _ \<Rightarrow>
          (case Schema_UnmarshalJSON Minimum Properties
                  (case cur of None \<Rightarrow> \<lparr>Validators = []\<rparr> | Some s \<Rightarrow> s) raw of
             Inl err \<Rightarrow> Inl err
           | Inr s \<Rightarrow> Inr (Some s)))"

definition properties_SetSchema ::
  "(gval \<Rightarrow> validator) \<Rightarrow> (gval \<Rightarrow> validator) \<Rightarrow> properties \<Rightarrow> (string \<times> json) list \<Rightarrow> properties" where
  "properties_SetSchema Minimum Properties p v =
     (let p1 = p\<lparr>additionalPropertiesBool := True\<rparr> in
      case map_of v ''additionalProperties'' of
        None \<Rightarrow> p1
      | Some addVal \<Rightarrow>
          (let p2 = p1\<lparr>additionalPropertiesBool := Unmarshal_bool addVal (additionalPropertiesBool p1)\<rparr> in
           case Unmarshal_SchemaPtr Minimum Properties (additionalPropertiesObject p2) addVal of
             Inl err \<Rightarrow> p2\<lparr>additionalPropertiesObject := None\<rparr>
           | Inr sp \<Rightarrow> p2\<lparr>additionalPropertiesObject := sp\<rparr>))"

section \<open>type\<close>

text \<open>A \<^verbatim>\<open>typeValidator\<close> is a \<^verbatim>\<open>map[string]bool\<close>. \<open>type_name\<close> is the type switch
  that computes \<^verbatim>\<open>s\<close>; a value of no listed type leaves it empty. \<open>fmt_strings\<close> is the
  verb \<^verbatim>\<open>%s\<close> on a \<^verbatim>\<open>[]string\<close>.\<close>

type_synonym typeValidator = "(string \<times> bool) list"

definition type_name :: "gval \<Rightarrow> string" where
  "type_name v =
     (case v of
        GString x \<Rightarrow> ''string''
      | GBool x \<Rightarrow> ''boolean''
      | GNil \<Rightarrow> ''null''
      | GSlice x \<Rightarrow> ''array''
      | GMap x \<Rightarrow> ''object''
      | GNumber x \<Rightarrow> if CHR ''.'' \<in> set x then ''number'' else ''integer''
      | GFloat64 x \<Rightarrow> ''number''
      | _ \<Rightarrow> [])"

fun join_space :: "string list \<Rightarrow> string" where
  "join_space [] = []"
| "join_space [x] = x"
| "join_space (x # y # ys) = x @ '' '' @ join_space (y # ys)"

definition fmt_strings :: "string list \<Rightarrow> string" where
  "fmt_strings xs = ''['' @ join_space xs @ '']''"

definition typeValidator_Validate :: "typeValidator \<Rightarrow> gval \<Rightarrow> result" where
  "typeValidator_Validate t v =
     (let s = type_name v;
          ok = (map_of t s \<noteq> None);
          ok' = (if \<not> ok \<and> s = ''integer'' then map_of t ''number'' \<noteq> None else ok)
      in if \<not> ok'
         then Inr [ValidationError
                (''Value must be one of these types: '' @ fmt_strings (map fst t) @ ''.'')]
         else Inr [])"

text \<open>The number of embedded schemas that validate \<open>v\<close> with no errors.\<close>

definition oneOf_passing :: "(gval \<Rightarrow> gval) \<Rightarrow> oneOf \<Rightarrow> gval \<Rightarrow> nat" where
  "oneOf_passing nT o' v =
     length (filter (\<lambda>(k, s). Schema_Validate nT s v = Inr []) (oneOf.EmbeddedSchemas o'))"

section \<open>The value of a number literal\<close>

text \<open>
  For comparison with \<open>type_name\<close>, the words "its value carries no fractional
  component" on their own: the value of a JSON number literal (an optional minus
  sign, digits, an optional fraction, an optional exponent) as a rational number, and
  the test that a rational number is not an integer.
\<close>

fun split_at :: "(char \<Rightarrow> bool) \<Rightarrow> string \<Rightarrow> string \<times> string option" where
  "split_at P [] = ([], None)"
| "split_at P (c # cs) =
     (if P c then ([], Some cs)
      else (case split_at P cs of (before, after) \<Rightarrow> (c # before, after)))"

definition exponent_value :: "string \<Rightarrow> int option" where
  "exponent_value e =
     (case e of
        [] \<Rightarrow> None
      | c # r \<Rightarrow>
          if c = CHR ''-'' then (if r = [] then None else map_option (\<lambda>n. - int n) (parse_digits r 0))
          else if c = CHR ''+'' then (if r = [] then None else map_option int (parse_digits r 0))
          else map_option int (parse_digits e 0))"

definition literal_value :: "string \<Rightarrow> rat option" where
  "literal_value lit =
     (let (neg, body) = (case lit of
                           [] \<Rightarrow> (False, lit)
                         | c # r \<Rightarrow> if c = CHR ''-'' then (True, r) else (False, lit));
          (mantissa, ex) = split_at (\<lambda>c. c = CHR ''e'' \<or> c = CHR ''E'') body;
          (ip, fp) = split_at (\<lambda>c. c = CHR ''.'') mantissa
      in case (if ip = [] then None else parse_digits ip 0,
               case fp of
                 None \<Rightarrow> Some (0, 0)
               | Some f \<Rightarrow> if f = [] then None
                           else map_option (\<lambda>n. (n, length f)) (parse_digits f 0),
               case ex of None \<Rightarrow> Some 0 | Some e \<Rightarrow> exponent_value e) of
           (Some i, Some (f, k), Some e) \<Rightarrow>
             Some ((if neg then - 1 else 1) * (of_nat i + of_nat f / 10 ^ k)
                   * (if 0 \<le> e then 10 ^ nat e else 1 / 10 ^ nat (- e)))
         | _ \<Rightarrow> None)"

definition has_fraction :: "rat \<Rightarrow> bool" where
  "has_fraction q = (of_int \<lfloor>q\<rfloor> \<noteq> q)"

section \<open>Results that agree up to the order of the errors\<close>


section \<open>minimum: the bound itself\<close>

text \<open>
  The literal \<^verbatim>\<open>1\<close> decodes to the \<^verbatim>\<open>json.Number\<close> \<open>''1''\<close>. Every
  \<^verbatim>\<open>int64\<close> below 1 gets the error, whatever the flag.
\<close>

lemma minimum_rejects_below:
  "sint n < 1 \<Longrightarrow>
   minimum_Validate fl \<lparr>minimum.Number = ''1'', exclusive = e\<rparr> (GInt64 n)
     = Inr [ValidationError ''Value must be larger than 1.'']"
  by (simp add: minimum_Validate_def minimum_isLargerThanInt_def ParseInt_def digit_of_def)

text \<open>
  C1. The claim says that the instance 1 yields no error when the exclusive flag is
  false. The code returns the error there, and returns none when the flag is true:
  \<^verbatim>\<open>isLargerThanInt\<close> computes what \<^verbatim>\<open>maximum\<close> computes, and \<^verbatim>\<open>Validate\<close>
  does not negate it in the case of equality. \<^verbatim>\<open>SetSchema\<close> looks the flag up under
  \<^verbatim>\<open>exclusiveminimum\<close>, so that a sibling \<^verbatim>\<open>exclusiveMinimum\<close> is not read. The same
  inputs on \<^verbatim>\<open>maximum\<close> give what the claim describes.
\<close>

theorem minimum_rejects_its_bound:
  "minimum_SetSchema \<lparr>minimum.Number = ''1'', exclusive = False\<rparr> [(''minimum'', JNumber ''1'')]
     = \<lparr>minimum.Number = ''1'', exclusive = False\<rparr>
   \<and> minimum_Validate fl \<lparr>minimum.Number = ''1'', exclusive = False\<rparr> (GInt64 1)
     = Inr [ValidationError ''Value must be larger than 1.'']
   \<and> minimum_Validate fl \<lparr>minimum.Number = ''1'', exclusive = True\<rparr> (GInt64 1) = Inr []
   \<and> minimum_SetSchema \<lparr>minimum.Number = ''1'', exclusive = False\<rparr>
       [(''minimum'', JNumber ''1''), (''exclusiveMinimum'', JBool True)]
     = \<lparr>minimum.Number = ''1'', exclusive = False\<rparr>
   \<and> maximum_Validate fl \<lparr>maximum.Number = ''1'', exclusive = False\<rparr> (GInt64 1) = Inr []
   \<and> maximum_Validate fl \<lparr>maximum.Number = ''1'', exclusive = True\<rparr> (GInt64 1)
     = Inr [ValidationError ''Value must be smaller than 1.'']"
  by (simp add: minimum_SetSchema_def minimum_Validate_def minimum_isLargerThanInt_def
      maximum_Validate_def maximum_isLargerThanInt_def ParseInt_def digit_of_def)

section \<open>properties and items: an additional member erases the errors\<close>

text \<open>
  C2. The claim says that a disallowed additional property or array item does not
  erase the errors found before. In \<^verbatim>\<open>properties.Validate\<close> the error of the
  additional member replaces the accumulated list (\<^verbatim>\<open>append\<close> without
  \<^verbatim>\<open>valErrs\<close>); in \<^verbatim>\<open>items.Validate\<close> the additional item returns a list of its own.
  Whatever errors the schema of \<^verbatim>\<open>a\<close>, or of the first item, reports, the result is the
  one error of the additional member; the last three equations take a schema that
  reports an error on every instance.
\<close>

theorem additional_member_erases_errors:
  "properties_Validate nT
     \<lparr>properties.EmbeddedSchemas = [(''a'', Sa)], patternProperties = None,
      additionalPropertiesBool = False, additionalPropertiesObject = None\<rparr>
     (GMap [(''a'', x), (''b'', y)])
   = (case Schema_Validate nT Sa x of
        Inl p \<Rightarrow> Inl p
      | Inr errs \<Rightarrow> Inr [ValidationError ''Additional properties aren't allowed''])
   \<and> items_Validate nT
     \<lparr>items.EmbeddedSchemas = E, schema = None, schemaSlice = Some [S0],
      additionalAllowed = False, additionalItems = A\<rparr>
     (GSlice [x, y])
   = (case Schema_Validate nT S0 x of
        Inl p \<Rightarrow> Inl p
      | Inr errs \<Rightarrow> Inr [ValidationError ''Additional items aren't allowed.''])
   \<and> Schema_Validate nT (Some \<lparr>Validators = [oneOf_Validate nT \<lparr>oneOf.EmbeddedSchemas = []\<rparr>]\<rparr>) x
   = Inr [ValidationError ''Validation passed for 0 schemas in 'oneOf'.'']
   \<and> properties_Validate nT
     \<lparr>properties.EmbeddedSchemas =
        [(''a'', Some \<lparr>Validators = [oneOf_Validate nT \<lparr>oneOf.EmbeddedSchemas = []\<rparr>]\<rparr>)],
      patternProperties = None,
      additionalPropertiesBool = False, additionalPropertiesObject = None\<rparr>
     (GMap [(''a'', x), (''b'', y)])
   = Inr [ValidationError ''Additional properties aren't allowed'']
   \<and> items_Validate nT
     \<lparr>items.EmbeddedSchemas = E, schema = None,
      schemaSlice = Some [Some \<lparr>Validators = [oneOf_Validate nT \<lparr>oneOf.EmbeddedSchemas = []\<rparr>]\<rparr>],
      additionalAllowed = False, additionalItems = A\<rparr>
     (GSlice [x, y])
   = Inr [ValidationError ''Additional items aren't allowed.'']"
  by (simp add: properties_Validate_def properties_member_def items_Validate_def
      Schema_Validate_def oneOf_Validate_def fmt_d_def digit_char_def
      split: sum.splits)

section \<open>Schema.UnmarshalJSON: the keywords that install a validator\<close>

lemma Schema_UnmarshalJSON_object:
  "decode_value bts = GMap schemaMap \<Longrightarrow>
   Schema_UnmarshalJSON M P s bts =
     Inr (s\<lparr>Validators := Validators s
              @ (case map_of schemaMap ''minimum'' of Some x \<Rightarrow> [M x] | None \<Rightarrow> [])
              @ (case map_of schemaMap ''properties'' of Some x \<Rightarrow> [P x] | None \<Rightarrow> [])\<rparr>)"
  by (simp add: Schema_UnmarshalJSON_def split: option.splits)

text \<open>
  C3. Decoding a schema object installs a validator for the member \<^verbatim>\<open>minimum\<close> and
  one for the member \<^verbatim>\<open>properties\<close>, and nothing else: two objects that agree on
  these two members decode to the same Schema, whatever other keywords they hold, and
  an object with neither of them decodes to a Schema that accepts every instance.
\<close>

theorem Schema_UnmarshalJSON_other_keywords:
  assumes d: "decode_value bts = GMap schemaMap"
  shows "(\<exists>s'. Schema_UnmarshalJSON M P s bts = Inr s'
        \<and> Validators s' = Validators s
             @ (case map_of schemaMap ''minimum'' of Some x \<Rightarrow> [M x] | None \<Rightarrow> [])
             @ (case map_of schemaMap ''properties'' of Some x \<Rightarrow> [P x] | None \<Rightarrow> []))
   \<and> (\<forall>bts' schemaMap'.
          decode_value bts' = GMap schemaMap' \<longrightarrow>
          map_of schemaMap' ''minimum'' = map_of schemaMap ''minimum'' \<longrightarrow>
          map_of schemaMap' ''properties'' = map_of schemaMap ''properties'' \<longrightarrow>
          Schema_UnmarshalJSON M P s bts' = Schema_UnmarshalJSON M P s bts)
   \<and> (map_of schemaMap ''minimum'' = None \<longrightarrow> map_of schemaMap ''properties'' = None \<longrightarrow>
        (\<forall>s'. Schema_UnmarshalJSON M P \<lparr>Validators = []\<rparr> bts = Inr s' \<longrightarrow>
              Schema_Validate nT (Some s') v = Inr []))"
proof (intro impI conjI allI)
  show "\<exists>s'. Schema_UnmarshalJSON M P s bts = Inr s'
        \<and> Validators s' = Validators s
             @ (case map_of schemaMap ''minimum'' of Some x \<Rightarrow> [M x] | None \<Rightarrow> [])
             @ (case map_of schemaMap ''properties'' of Some x \<Rightarrow> [P x] | None \<Rightarrow> [])"
    by (simp add: Schema_UnmarshalJSON_object [OF d])
next
  fix bts' schemaMap'
  assume d': "decode_value bts' = GMap schemaMap'"
    and "map_of schemaMap' ''minimum'' = map_of schemaMap ''minimum''"
    and "map_of schemaMap' ''properties'' = map_of schemaMap ''properties''"
  then show "Schema_UnmarshalJSON M P s bts' = Schema_UnmarshalJSON M P s bts"
    by (simp add: Schema_UnmarshalJSON_object [OF d] Schema_UnmarshalJSON_object [OF d'])
next
  fix s'
  assume "map_of schemaMap ''minimum'' = None" and "map_of schemaMap ''properties'' = None"
    and "Schema_UnmarshalJSON M P \<lparr>Validators = []\<rparr> bts = Inr s'"
  then have "s' = \<lparr>Validators = []\<rparr>"
    by (simp add: Schema_UnmarshalJSON_object [OF d])
  then show "Schema_Validate nT (Some s') v = Inr []"
    by (simp add: Schema_Validate_def)
qed

theorem Schema_UnmarshalJSON_other_keywords_witness:
  "\<forall>M P nT.
     Schema_UnmarshalJSON M P \<lparr>Validators = []\<rparr>
       (JObject [(''type'', JString ''string''), (''minimum'', JNumber ''1''),
                 (''required'', JArray [JString ''a''])])
     = Schema_UnmarshalJSON M P \<lparr>Validators = []\<rparr> (JObject [(''minimum'', JNumber ''1'')])
   \<and> Schema_UnmarshalJSON M P \<lparr>Validators = []\<rparr> (JObject [(''minimum'', JNumber ''1'')])
     = Inr \<lparr>Validators = [M (GNumber ''1'')]\<rparr>
   \<and> Schema_UnmarshalJSON M P \<lparr>Validators = []\<rparr> (JObject [(''type'', JString ''string'')])
     = Inr \<lparr>Validators = []\<rparr>
   \<and> Schema_Validate nT (Some \<lparr>Validators = []\<rparr>) (GNumber ''5'') = Inr []"
proof (intro allI conjI)
  fix M P :: "gval \<Rightarrow> validator" and nT :: "gval \<Rightarrow> gval"
  let ?s = "\<lparr>Validators = []\<rparr>"
  let ?b = "JObject [(''minimum'', JNumber ''1'')]"
  let ?m = "[(''minimum'', GNumber ''1'')]"
  let ?b' = "JObject [(''type'', JString ''string''), (''minimum'', JNumber ''1''),
                 (''required'', JArray [JString ''a''])]"
  let ?m' = "[(''type'', GString ''string''), (''minimum'', GNumber ''1''),
                 (''required'', GSlice [GString ''a''])]"
  let ?t = "JObject [(''type'', JString ''string'')]"
  let ?mt = "[(''type'', GString ''string'')]"
  have d: "decode_value ?b = GMap ?m"
    by (simp add: go_map_def)
  have d': "decode_value ?b' = GMap ?m'"
    by (simp add: go_map_def)
  have t: "decode_value ?t = GMap ?mt"
    by (simp add: go_map_def)
  note inst = Schema_UnmarshalJSON_other_keywords [OF d, of M P ?s nT "GNumber ''5''"]
  have k1: "map_of ?m' ''minimum'' = map_of ?m ''minimum''" by simp
  have k2: "map_of ?m' ''properties'' = map_of ?m ''properties''" by simp
  show "Schema_UnmarshalJSON M P ?s ?b' = Schema_UnmarshalJSON M P ?s ?b"
    by (rule inst [THEN conjunct2, THEN conjunct1, rule_format, OF d' k1 k2])
  from inst [THEN conjunct1]
  obtain s' where s': "Schema_UnmarshalJSON M P ?s ?b = Inr s'"
    and v: "Validators s' = [M (GNumber ''1'')]" by auto
  from v have "s' = \<lparr>Validators = [M (GNumber ''1'')]\<rparr>" by (cases s') simp
  with s' show "Schema_UnmarshalJSON M P ?s ?b = Inr \<lparr>Validators = [M (GNumber ''1'')]\<rparr>"
    by simp
  note inst2 = Schema_UnmarshalJSON_other_keywords [OF t, of M P ?s nT "GNumber ''5''"]
  from inst2 [THEN conjunct1]
  obtain s2 where s2: "Schema_UnmarshalJSON M P ?s ?t = Inr s2"
    and v2: "Validators s2 = []" by auto
  from v2 have e2: "s2 = \<lparr>Validators = []\<rparr>" by (cases s2) simp
  with s2 show e: "Schema_UnmarshalJSON M P ?s ?t = Inr \<lparr>Validators = []\<rparr>"
    by simp
  from inst2 [THEN conjunct2, THEN conjunct2] e
  show "Schema_Validate nT (Some \<lparr>Validators = []\<rparr>) (GNumber ''5'') = Inr []"
    by simp
qed

section \<open>patternProperties beside properties\<close>

text \<open>
  C4. For the schema object with \<^verbatim>\<open>"properties": {}\<close>, a pattern \<^verbatim>\<open>^x\<close> with the
  schema \<open>Sx\<close> and \<^verbatim>\<open>"additionalProperties": false\<close>, linked by \<^verbatim>\<open>SetSchema\<close> and
  \<^verbatim>\<open>GetNeighboringSchemas\<close>: the \<^verbatim>\<open>patternProperties\<close> validator returns no error, as
  the claim says. The errors of the member \<^verbatim>\<open>x1\<close>, which the pattern matches, are
  emitted once when the additional member \<^verbatim>\<open>b\<close> is visited first, and not at all when
  it is visited after \<^verbatim>\<open>x1\<close>: the claim says exactly once.
\<close>

theorem pattern_member_error_erased:
  "patternProperties_SetSchema
     \<lparr>patternProperties.EmbeddedSchemas = [(''^x'', Sx)],
      object = [(''^x'', \<lparr>expr = ''^x'', MatchString = (\<lambda>s. take 1 s = ''x'')\<rparr>)],
      propertiesIsNeighbor = False\<rparr>
     [(''properties'', JObject []), (''patternProperties'', raw),
      (''additionalProperties'', JBool False)]
   = \<lparr>patternProperties.EmbeddedSchemas = [(''^x'', Sx)],
      object = [(''^x'', \<lparr>expr = ''^x'', MatchString = (\<lambda>s. take 1 s = ''x'')\<rparr>)],
      propertiesIsNeighbor = True\<rparr>
   \<and> properties_GetNeighboringSchemas
       (properties_SetSchema M P
          \<lparr>properties.EmbeddedSchemas = [], patternProperties = None,
           additionalPropertiesBool = False, additionalPropertiesObject = None\<rparr>
          [(''properties'', JObject []), (''patternProperties'', raw),
           (''additionalProperties'', JBool False)])
       [(''patternProperties'',
         \<lparr>Node.EmbeddedSchemas = [(''^x'', Sx)],
          Validator = PatternPropertiesPtr
            \<lparr>patternProperties.EmbeddedSchemas = [(''^x'', Sx)],
             object = [(''^x'', \<lparr>expr = ''^x'', MatchString = (\<lambda>s. take 1 s = ''x'')\<rparr>)],
             propertiesIsNeighbor = True\<rparr>\<rparr>)]
   = \<lparr>properties.EmbeddedSchemas = [],
      patternProperties = Some
        \<lparr>patternProperties.EmbeddedSchemas = [(''^x'', Sx)],
         object = [(''^x'', \<lparr>expr = ''^x'', MatchString = (\<lambda>s. take 1 s = ''x'')\<rparr>)],
         propertiesIsNeighbor = True\<rparr>,
      additionalPropertiesBool = False, additionalPropertiesObject = None\<rparr>
   \<and> patternProperties_Validate nT
       \<lparr>patternProperties.EmbeddedSchemas = [(''^x'', Sx)],
        object = [(''^x'', \<lparr>expr = ''^x'', MatchString = (\<lambda>s. take 1 s = ''x'')\<rparr>)],
        propertiesIsNeighbor = True\<rparr>
       (GMap [(''x1'', a), (''b'', y)])
     = Inr []
   \<and> properties_Validate nT
       \<lparr>properties.EmbeddedSchemas = [],
        patternProperties = Some
          \<lparr>patternProperties.EmbeddedSchemas = [(''^x'', Sx)],
           object = [(''^x'', \<lparr>expr = ''^x'', MatchString = (\<lambda>s. take 1 s = ''x'')\<rparr>)],
           propertiesIsNeighbor = True\<rparr>,
        additionalPropertiesBool = False, additionalPropertiesObject = None\<rparr>
       (GMap [(''x1'', a), (''b'', y)])
     = (case Schema_Validate nT Sx a of
          Inl p \<Rightarrow> Inl p
        | Inr errs \<Rightarrow> Inr [ValidationError ''Additional properties aren't allowed''])
   \<and> properties_Validate nT
       \<lparr>properties.EmbeddedSchemas = [],
        patternProperties = Some
          \<lparr>patternProperties.EmbeddedSchemas = [(''^x'', Sx)],
           object = [(''^x'', \<lparr>expr = ''^x'', MatchString = (\<lambda>s. take 1 s = ''x'')\<rparr>)],
           propertiesIsNeighbor = True\<rparr>,
        additionalPropertiesBool = False, additionalPropertiesObject = None\<rparr>
       (GMap [(''b'', y), (''x1'', a)])
     = (case Schema_Validate nT Sx a of
          Inl p \<Rightarrow> Inl p
        | Inr errs \<Rightarrow> Inr (ValidationError ''Additional properties aren't allowed'' # errs))"
  by (simp add: patternProperties_SetSchema_def properties_GetNeighboringSchemas_def
      properties_SetSchema_def Unmarshal_bool_def Unmarshal_SchemaPtr_def Schema_UnmarshalJSON_def
      patternProperties_Validate_def properties_Validate_def properties_member_def lookup_schema_def
      split: sum.splits)

section \<open>oneOf: exactly one branch\<close>

lemma oneOf_range_returns:
  "\<forall>(k, s) \<in> set es. \<exists>errs. Schema_Validate nT s v = Inr errs \<Longrightarrow>
   oneOf_range nT es v c =
     Inr (c + int (length (filter (\<lambda>(k, s). Schema_Validate nT s v = Inr []) es)))"
proof (induction es arbitrary: c)
  case Nil
  then show ?case by simp
next
  case (Cons e es)
  obtain k s where e: "e = (k, s)" by (cases e)
  from Cons.prems e obtain errs where r: "Schema_Validate nT s v = Inr errs" by auto
  from Cons.prems have rest: "\<forall>(k, s) \<in> set es. \<exists>errs. Schema_Validate nT s v = Inr errs"
    by simp
  show ?case using Cons.IH [OF rest] e r by simp
qed

lemma oneOf_range_panics:
  "(\<exists>p. oneOf_range nT es v c = Inl p) \<longleftrightarrow>
   (\<exists>(k, s) \<in> set es. \<exists>p. Schema_Validate nT s v = Inl p)"
proof (induction es arbitrary: c)
  case Nil
  then show ?case by simp
next
  case (Cons e es)
  obtain k s where e: "e = (k, s)" by (cases e)
  show ?case
  proof (cases "Schema_Validate nT s v")
    case (Inl p)
    then show ?thesis using e by auto
  next
    case (Inr errs)
    then show ?thesis using e Cons.IH by auto
  qed
qed

text \<open>
  C5. \<^verbatim>\<open>oneOf.Validate\<close> panics exactly when an embedded schema does. When every
  embedded schema returns, it returns no error if and only if exactly one of them
  validates \<open>v\<close> with no errors, and otherwise exactly one error, which reports the
  number of embedded schemas that passed.
\<close>

theorem oneOf_exactly_one:
  "((\<exists>p. oneOf_Validate nT o' v = Inl p) \<longleftrightarrow>
      (\<exists>(k, s) \<in> set (oneOf.EmbeddedSchemas o'). \<exists>p. Schema_Validate nT s v = Inl p))
   \<and> ((\<forall>(k, s) \<in> set (oneOf.EmbeddedSchemas o'). \<exists>errs. Schema_Validate nT s v = Inr errs) \<longrightarrow>
        (oneOf_Validate nT o' v = Inr [] \<longleftrightarrow> oneOf_passing nT o' v = 1)
        \<and> (oneOf_passing nT o' v \<noteq> 1 \<longrightarrow>
             oneOf_Validate nT o' v =
               Inr [ValidationError (''Validation passed for ''
                      @ fmt_d (int (oneOf_passing nT o' v)) @ '' schemas in 'oneOf'.'')]))"
proof (intro conjI impI)
  show "(\<exists>p. oneOf_Validate nT o' v = Inl p) \<longleftrightarrow>
      (\<exists>(k, s) \<in> set (oneOf.EmbeddedSchemas o'). \<exists>p. Schema_Validate nT s v = Inl p)"
    using oneOf_range_panics [of nT "oneOf.EmbeddedSchemas o'" v 0]
    by (auto simp: oneOf_Validate_def split: sum.splits)
next
  assume a: "\<forall>(k, s) \<in> set (oneOf.EmbeddedSchemas o'). \<exists>errs. Schema_Validate nT s v = Inr errs"
  show "oneOf_Validate nT o' v = Inr [] \<longleftrightarrow> oneOf_passing nT o' v = 1"
    using oneOf_range_returns [OF a, of 0]
    by (simp add: oneOf_Validate_def oneOf_passing_def)
next
  assume a: "\<forall>(k, s) \<in> set (oneOf.EmbeddedSchemas o'). \<exists>errs. Schema_Validate nT s v = Inr errs"
    and n: "oneOf_passing nT o' v \<noteq> 1"
  show "oneOf_Validate nT o' v =
               Inr [ValidationError (''Validation passed for ''
                      @ fmt_d (int (oneOf_passing nT o' v)) @ '' schemas in 'oneOf'.'')]"
    using oneOf_range_returns [OF a, of 0] n
    by (simp add: oneOf_Validate_def oneOf_passing_def)
qed


theorem oneOf_exactly_one_witness:
  "\<forall>nT.
     Schema_Validate nT (Some \<lparr>Validators = []\<rparr>) (GString ''x'') = Inr []
   \<and> Schema_Validate nT (Some \<lparr>Validators = [oneOf_Validate nT \<lparr>oneOf.EmbeddedSchemas = []\<rparr>]\<rparr>)
         (GString ''x'')
       = Inr [ValidationError ''Validation passed for 0 schemas in 'oneOf'.'']
   \<and> oneOf_Validate nT
         \<lparr>oneOf.EmbeddedSchemas =
            [(''0'', Some \<lparr>Validators = []\<rparr>),
             (''1'', Some \<lparr>Validators = [oneOf_Validate nT \<lparr>oneOf.EmbeddedSchemas = []\<rparr>]\<rparr>)]\<rparr>
         (GString ''x'')
       = Inr []
   \<and> oneOf_Validate nT
         \<lparr>oneOf.EmbeddedSchemas =
            [(''0'', Some \<lparr>Validators = []\<rparr>), (''1'', Some \<lparr>Validators = []\<rparr>)]\<rparr>
         (GString ''x'')
       = Inr [ValidationError ''Validation passed for 2 schemas in 'oneOf'.'']"
proof (intro allI conjI)
  fix nT :: "gval \<Rightarrow> gval"
  let ?never = "\<lparr>Validators = [oneOf_Validate nT \<lparr>oneOf.EmbeddedSchemas = []\<rparr>]\<rparr>"
  let ?o1 = "\<lparr>oneOf.EmbeddedSchemas = [(''0'', Some \<lparr>Validators = []\<rparr>), (''1'', Some ?never)]\<rparr>"
  let ?o2 = "\<lparr>oneOf.EmbeddedSchemas =
               [(''0'', Some \<lparr>Validators = []\<rparr>), (''1'', Some \<lparr>Validators = []\<rparr>)]\<rparr>"
  show e: "Schema_Validate nT (Some \<lparr>Validators = []\<rparr>) (GString ''x'') = Inr []"
    by (simp add: Schema_Validate_def)
  show n: "Schema_Validate nT (Some ?never) (GString ''x'')
      = Inr [ValidationError ''Validation passed for 0 schemas in 'oneOf'.'']"
    by (simp add: Schema_Validate_def oneOf_Validate_def fmt_d_def digit_char_def)
  have p1: "oneOf_passing nT ?o1 (GString ''x'') = 1"
    using e n by (simp add: oneOf_passing_def)
  have p2: "oneOf_passing nT ?o2 (GString ''x'') = 2"
    using e by (simp add: oneOf_passing_def)
  have f: "fmt_d (int 2) = ''2''"
    by (simp add: fmt_d_def digit_char_def)
  show "oneOf_Validate nT ?o1 (GString ''x'') = Inr []"
    using oneOf_exactly_one [of nT ?o1 "GString ''x''"] e n p1 by simp
  show "oneOf_Validate nT ?o2 (GString ''x'')
      = Inr [ValidationError ''Validation passed for 2 schemas in 'oneOf'.'']"
    using oneOf_exactly_one [of nT ?o2 "GString ''x''"] e p2 f by simp
qed

section \<open>type: the classification of numbers\<close>

lemma split_at_absent: "\<forall>c \<in> set s. \<not> P c \<Longrightarrow> split_at P s = (s, None)"
  by (induction s) simp_all

lemma literal_value_plain:
  assumes "CHR ''e'' \<notin> set x" and "CHR ''E'' \<notin> set x" and "CHR ''.'' \<notin> set x"
    and "literal_value x = Some q"
  shows "\<not> has_fraction q"
proof -
  define neg where "neg = (case x of [] \<Rightarrow> False | c # r \<Rightarrow> c = CHR ''-'')"
  define body where "body = (case x of [] \<Rightarrow> x | c # r \<Rightarrow> if c = CHR ''-'' then r else x)"
  have nb: "(case x of [] \<Rightarrow> (False, x) | c # r \<Rightarrow> if c = CHR ''-'' then (True, r) else (False, x))
      = (neg, body)"
    by (cases x) (simp_all add: neg_def body_def)
  have sub: "set body \<subseteq> set x" by (cases x) (auto simp: body_def)
  have s1: "split_at (\<lambda>c. c = CHR ''e'' \<or> c = CHR ''E'') body = (body, None)"
    using assms(1,2) sub by (intro split_at_absent) auto
  have s2: "split_at (\<lambda>c. c = CHR ''.'') body = (body, None)"
    using assms(3) sub by (intro split_at_absent) auto
  from assms(4) obtain i where q: "q = (if neg then - 1 else 1) * of_nat i"
    by (auto simp: literal_value_def nb s1 s2 split: option.splits if_splits)
  have "q = of_int ((if neg then - 1 else 1) * int i)" using q by simp
  then show ?thesis by (simp only: has_fraction_def floor_of_int)
qed

text \<open>
  The claim C6 as stated fails. The literal \<^verbatim>\<open>1.0\<close> has the value 1, with no
  fractional component, and is classified \<^verbatim>\<open>number\<close>, so that the type name
  \<^verbatim>\<open>integer\<close> refuses it.
\<close>

theorem type_name_counterexample:
  "literal_value ''1.0'' = Some 1 \<and> \<not> has_fraction 1
   \<and> type_name (GNumber ''1.0'') = ''number''
   \<and> typeValidator_Validate [(''integer'', True)] (GNumber ''1.0'')
       = Inr [ValidationError ''Value must be one of these types: [integer].'']"
  by (simp add: literal_value_def digit_of_def exponent_value_def has_fraction_def type_name_def
      typeValidator_Validate_def fmt_strings_def)

lemma typeValidator_Validate_accepts:
  "typeValidator_Validate t v = Inr [] \<longleftrightarrow>
     type_name v \<in> fst ` set t \<or> type_name v = ''integer'' \<and> ''number'' \<in> fst ` set t"
  by (auto simp: typeValidator_Validate_def Let_def map_of_eq_None_iff intro: rev_image_eqI)

lemma typeValidator_Validate_one_error:
  "typeValidator_Validate t v \<noteq> Inr [] \<longleftrightarrow>
     typeValidator_Validate t v =
       Inr [ValidationError (''Value must be one of these types: '' @ fmt_strings (map fst t) @ ''.'')]"
  by (simp add: typeValidator_Validate_def Let_def)

text \<open>
  C6, amended. A \<^verbatim>\<open>json.Number\<close> whose literal has no exponent is classified
  \<^verbatim>\<open>integer\<close> if and only if the literal has no character \<^verbatim>\<open>.\<close>, and \<^verbatim>\<open>number\<close>
  otherwise; what is classified \<^verbatim>\<open>integer\<close> has a value with no fractional component.
  A \<^verbatim>\<open>float64\<close> is always \<^verbatim>\<open>number\<close>. The validator accepts an instance exactly
  when the name of its kind is a permitted name, or the kind is \<^verbatim>\<open>integer\<close> and
  \<^verbatim>\<open>number\<close> is permitted (not the other way round): \<^verbatim>\<open>number\<close> admits every
  \<^verbatim>\<open>json.Number\<close> and every \<^verbatim>\<open>float64\<close>, and without it a \<^verbatim>\<open>float64\<close> and a literal
  with a \<^verbatim>\<open>.\<close> are refused. A refused instance gets exactly one error, which lists the
  permitted names.
\<close>

theorem typeValidator_lexical_classification:
  "(CHR ''e'' \<notin> set x \<longrightarrow> CHR ''E'' \<notin> set x \<longrightarrow>
      type_name (GNumber x) = (if CHR ''.'' \<in> set x then ''number'' else ''integer'')
      \<and> (type_name (GNumber x) = ''integer'' \<longrightarrow> literal_value x = Some q \<longrightarrow> \<not> has_fraction q)
      \<and> (''number'' \<notin> fst ` set t \<longrightarrow> CHR ''.'' \<in> set x \<longrightarrow>
            typeValidator_Validate t (GNumber x) \<noteq> Inr []))
   \<and> type_name (GFloat64 f) = ''number''
   \<and> (''number'' \<in> fst ` set t \<longrightarrow>
        typeValidator_Validate t (GNumber x) = Inr [] \<and> typeValidator_Validate t (GFloat64 f) = Inr [])
   \<and> (''number'' \<notin> fst ` set t \<longrightarrow> typeValidator_Validate t (GFloat64 f) \<noteq> Inr [])
   \<and> (typeValidator_Validate t v = Inr [] \<longleftrightarrow>
        type_name v \<in> fst ` set t \<or> type_name v = ''integer'' \<and> ''number'' \<in> fst ` set t)
   \<and> (typeValidator_Validate t v \<noteq> Inr [] \<longleftrightarrow>
        typeValidator_Validate t v =
          Inr [ValidationError
                (''Value must be one of these types: '' @ fmt_strings (map fst t) @ ''.'')])"
proof -
  have v: "CHR ''e'' \<notin> set x \<Longrightarrow> CHR ''E'' \<notin> set x \<Longrightarrow> type_name (GNumber x) = ''integer'' \<Longrightarrow>
      literal_value x = Some q \<Longrightarrow> \<not> has_fraction q"
    using literal_value_plain [of x q] by (simp add: type_name_def split: if_splits)
  show ?thesis
    using typeValidator_Validate_accepts [of t v] typeValidator_Validate_one_error [of t v]
      typeValidator_Validate_accepts [of t "GNumber x"] typeValidator_Validate_accepts [of t "GFloat64 f"]
      v
    by (simp add: type_name_def)
qed

theorem typeValidator_lexical_classification_witness:
  "''number'' \<in> fst ` set [(''number'', True)]
   \<and> typeValidator_Validate [(''number'', True)] (GNumber ''5'') = Inr []
   \<and> ''number'' \<notin> fst ` set [(''integer'', True), (''string'', True)]
   \<and> CHR ''e'' \<notin> set ''1.5'' \<and> CHR ''E'' \<notin> set ''1.5'' \<and> CHR ''.'' \<in> set ''1.5''
   \<and> type_name (GNumber ''1.5'') = ''number''
   \<and> typeValidator_Validate [(''integer'', True), (''string'', True)] (GNumber ''1.5'')
       = Inr [ValidationError ''Value must be one of these types: [integer string].'']
   \<and> CHR ''e'' \<notin> set ''5'' \<and> CHR ''E'' \<notin> set ''5''
   \<and> type_name (GNumber ''5'') = ''integer'' \<and> literal_value ''5'' = Some 5
   \<and> \<not> has_fraction 5
   \<and> typeValidator_Validate [(''integer'', True), (''string'', True)] (GNumber ''5'') = Inr []"
proof -
  let ?t = "[(''integer'', True), (''string'', True)]"
  have a: "''number'' \<in> fst ` set [(''number'', True)]" by simp
  have b: "''number'' \<notin> fst ` set ?t" by simp
  have c: "CHR ''e'' \<notin> set ''1.5''" "CHR ''E'' \<notin> set ''1.5''" "CHR ''.'' \<in> set ''1.5''" by simp_all
  have d: "CHR ''e'' \<notin> set ''5''" "CHR ''E'' \<notin> set ''5''" "CHR ''.'' \<notin> set ''5''" by simp_all
  have l: "literal_value ''5'' = Some 5"
    by (simp add: literal_value_def digit_of_def)
  have f: "fmt_strings (map fst ?t) = ''[integer string]''"
    by (simp add: fmt_strings_def)
  note i1 = typeValidator_lexical_classification
    [where x = "''5''" and t = "[(''number'', True)]" and v = "GNumber ''5''" and q = 5]
  note i2 = typeValidator_lexical_classification
    [where x = "''1.5''" and t = ?t and v = "GNumber ''1.5''" and q = 5]
  note i3 = typeValidator_lexical_classification
    [where x = "''5''" and t = ?t and v = "GNumber ''5''" and q = 5]
  from i1 a have r1: "typeValidator_Validate [(''number'', True)] (GNumber ''5'') = Inr []"
    by blast
  from i2 c have k2: "type_name (GNumber ''1.5'') = ''number''" by simp
  from i2 b c have "typeValidator_Validate ?t (GNumber ''1.5'') \<noteq> Inr []" by blast
  with i2 f
  have r2: "typeValidator_Validate ?t (GNumber ''1.5'')
       = Inr [ValidationError ''Value must be one of these types: [integer string].'']"
    by simp
  from i3 d have k3: "type_name (GNumber ''5'') = ''integer''" by simp
  from i3 d k3 l have h: "\<not> has_fraction 5" by blast
  from i3 k3 have r3: "typeValidator_Validate ?t (GNumber ''5'') = Inr []" by simp
  show ?thesis using a b c d l r1 k2 r2 k3 h r3 by simp
qed

section \<open>dependencies.UnmarshalJSON: when the decode fails\<close>

lemma update_not_Nil: "AList.update k v al \<noteq> []"
  by (cases al) auto

lemma dependencies_decode_schemas_Nil:
  "dependencies_decode_schemas M P c es = [] \<longleftrightarrow>
     es = [] \<and> (\<forall>(k, v) \<in> set c. \<exists>e. Schema_UnmarshalJSON M P \<lparr>Validators = []\<rparr> v = Inl e)"
proof (induction c arbitrary: es)
  case Nil
  then show ?case by simp
next
  case (Cons kv c)
  obtain k v where kv: "kv = (k, v)" by (cases kv)
  show ?case
  proof (cases "Schema_UnmarshalJSON M P \<lparr>Validators = []\<rparr> v")
    case (Inl e)
    then show ?thesis using kv Cons.IH [of es] by simp
  next
    case (Inr s)
    then show ?thesis
      using kv Cons.IH [of "AList.update k (Some s) es"] by (simp add: update_not_Nil)
  qed
qed

lemma dependencies_decode_props_Nil:
  "dependencies_decode_props c pd = [] \<longleftrightarrow>
     pd = [] \<and> (\<forall>(k, v) \<in> set c. \<exists>e. Unmarshal_strings v = Inl e)"
proof (induction c arbitrary: pd)
  case Nil
  then show ?case by simp
next
  case (Cons kv c)
  obtain k v where kv: "kv = (k, v)" by (cases kv)
  show ?case
  proof (cases "Unmarshal_strings v")
    case (Inl e)
    then show ?thesis using kv Cons.IH [of pd] by simp
  next
    case (Inr props)
    then show ?thesis
      using kv Cons.IH [of "AList.update k (remdups props) pd"] by (simp add: update_not_Nil)
  qed
qed

text \<open>
  The claim C7 as stated fails. In \<^verbatim>\<open>{"a": ["b"], "c": 5}\<close> the value of \<^verbatim>\<open>c\<close> is
  neither a schema nor a list of property names, and the decode succeeds: the member
  is dropped. This holds whatever the constructors \<open>M\<close> and \<open>P\<close> are.
\<close>

theorem dependencies_UnmarshalJSON_counterexample:
  "\<forall>M P.
     Schema_UnmarshalJSON M P \<lparr>Validators = []\<rparr> (JNumber ''5'')
       = Inl (ErrorString ''Schema must be of the type `map[string]interface{}`.'')
   \<and> Unmarshal_strings (JNumber ''5'') = Inl UnmarshalTypeError
   \<and> dependencies_UnmarshalJSON M P \<lparr>dependencies.EmbeddedSchemas = [], propertyDeps = []\<rparr>
         (JObject [(''a'', JArray [JString ''b'']), (''c'', JNumber ''5'')])
       = Inr \<lparr>dependencies.EmbeddedSchemas = [], propertyDeps = [(''a'', [''b''])]\<rparr>"
  by (simp add: Schema_UnmarshalJSON_def Unmarshal_strings_def dependencies_UnmarshalJSON_def
      Unmarshal_RawMessages_def go_map_def)

text \<open>
  C7, amended. With a receiver whose map of embedded schemas is empty, decoding an
  object fails if and only if no member's value decodes as a schema or as a list of
  property names, and the error is then the one made by \<^verbatim>\<open>errors.New\<close>.
\<close>

theorem dependencies_UnmarshalJSON_fails_iff:
  assumes "dependencies.EmbeddedSchemas d = []"
  shows "(dependencies_UnmarshalJSON M P d (JObject kvs)
            = Inl (ErrorString ''no valid schema or property dependency validators'')
          \<longleftrightarrow> (\<forall>(k, v) \<in> set (go_map kvs).
                 (\<exists>e. Schema_UnmarshalJSON M P \<lparr>Validators = []\<rparr> v = Inl e)
                 \<and> (\<exists>e. Unmarshal_strings v = Inl e)))
       \<and> ((\<exists>err. dependencies_UnmarshalJSON M P d (JObject kvs) = Inl err)
          \<longleftrightarrow> dependencies_UnmarshalJSON M P d (JObject kvs)
                = Inl (ErrorString ''no valid schema or property dependency validators''))"
  using assms
  by (auto simp: dependencies_UnmarshalJSON_def Unmarshal_RawMessages_def Let_def
      dependencies_decode_schemas_Nil dependencies_decode_props_Nil)

theorem dependencies_UnmarshalJSON_fails_witness:
  "\<forall>M P.
     dependencies.EmbeddedSchemas \<lparr>dependencies.EmbeddedSchemas = [], propertyDeps = []\<rparr> = []
   \<and> dependencies_UnmarshalJSON M P \<lparr>dependencies.EmbeddedSchemas = [], propertyDeps = []\<rparr>
         (JObject [(''a'', JNumber ''5''), (''b'', JBool True)])
       = Inl (ErrorString ''no valid schema or property dependency validators'')
   \<and> dependencies_UnmarshalJSON M P \<lparr>dependencies.EmbeddedSchemas = [], propertyDeps = []\<rparr>
         (JObject [(''a'', JNumber ''5''), (''b'', JObject [])])
       \<noteq> Inl (ErrorString ''no valid schema or property dependency validators'')"
proof (intro allI conjI)
  fix M P :: "gval \<Rightarrow> validator"
  let ?d = "\<lparr>dependencies.EmbeddedSchemas = [], propertyDeps = []\<rparr>"
  show e: "dependencies.EmbeddedSchemas ?d = []" by simp
  have n: "\<exists>e. Schema_UnmarshalJSON M P \<lparr>Validators = []\<rparr> (JNumber ''5'') = Inl e"
    "\<exists>e. Unmarshal_strings (JNumber ''5'') = Inl e"
    "\<exists>e. Schema_UnmarshalJSON M P \<lparr>Validators = []\<rparr> (JBool True) = Inl e"
    "\<exists>e. Unmarshal_strings (JBool True) = Inl e"
    by (simp_all add: Schema_UnmarshalJSON_def Unmarshal_strings_def)
  have o: "\<not> (\<exists>e. Schema_UnmarshalJSON M P \<lparr>Validators = []\<rparr> (JObject []) = Inl e)"
    by (simp add: Schema_UnmarshalJSON_def go_map_def)
  show "dependencies_UnmarshalJSON M P ?d (JObject [(''a'', JNumber ''5''), (''b'', JBool True)])
       = Inl (ErrorString ''no valid schema or property dependency validators'')"
    using dependencies_UnmarshalJSON_fails_iff [OF e, of M P "[(''a'', JNumber ''5''), (''b'', JBool True)]"] n
    by (simp add: go_map_def)
  show "dependencies_UnmarshalJSON M P ?d (JObject [(''a'', JNumber ''5''), (''b'', JObject [])])
       \<noteq> Inl (ErrorString ''no valid schema or property dependency validators'')"
    using dependencies_UnmarshalJSON_fails_iff [OF e, of M P "[(''a'', JNumber ''5''), (''b'', JObject [])]"] o
    by (simp add: go_map_def)
qed

section \<open>Validate and the order of the errors\<close>



















section \<open>normalizeNumber: what is normalized and what fails\<close>

lemma sint_ucast_64:
  fixes a :: "'a::len word"
  assumes "LENGTH('a) < 64"
  shows "sint (ucast a :: 64 word) = uint a"
proof -
  have up: "uint (ucast a :: 64 word) = uint a"
    using assms by (simp add: uint_up_ucast is_up)
  have "uint a < 2 ^ LENGTH('a)" by (rule uint_lt2p)
  also have "(2 :: int) ^ LENGTH('a) \<le> 2 ^ 63"
    using assms by (intro power_increasing) simp_all
  finally have "uint a < 2 ^ 63" .
  moreover have "- (2 ^ 63) \<le> uint a"
    by (rule order_trans [of _ 0]) simp_all
  ultimately show ?thesis
    by (simp add: sint_uint up signed_take_bit_int_eq_self)
qed

lemma sint_scast_64:
  fixes a :: "'a::len word"
  assumes "LENGTH('a) \<le> 64"
  shows "sint (scast a :: 64 word) = sint a"
  using assms by (simp add: sint_up_scast is_up)

text \<open>
  The claim C9 as stated fails: the \<^verbatim>\<open>uint64\<close> value 5 lies within the signed
  range, so that it could be normalized without loss, and \<open>normalizeNumber\<close> fails on
  it.
\<close>

theorem normalizeNumber_uint64_counterexample:
  "uint (5 :: 64 word) < 2 ^ 63
   \<and> normalizeNumber (GUint64 5) = (GUint64 5, Some ''uint64 is not a supported type.'')"
  by simp

text \<open>
  C9, amended. \<open>normalizeNumber\<close> returns an \<^verbatim>\<open>int64\<close> of the same value for every
  signed integer and for every \<^verbatim>\<open>uint8\<close>, \<^verbatim>\<open>uint16\<close> and \<^verbatim>\<open>uint32\<close>, and a
  \<^verbatim>\<open>float64\<close> for every float, without an error. It fails on every value of type
  \<^verbatim>\<open>uint64\<close>, whatever its magnitude. \<^verbatim>\<open>minimum\<close>, \<^verbatim>\<open>maximum\<close> and \<^verbatim>\<open>multipleOf\<close> turn the
  failure into one validation error that carries its message.
\<close>

theorem normalizeNumber_canonical_or_unsupported:
  "(\<exists>n. normalizeNumber (GInt i) = (GInt64 n, None) \<and> sint n = sint i)
   \<and> (\<exists>n. normalizeNumber (GInt8 i8) = (GInt64 n, None) \<and> sint n = sint i8)
   \<and> (\<exists>n. normalizeNumber (GInt16 i16) = (GInt64 n, None) \<and> sint n = sint i16)
   \<and> (\<exists>n. normalizeNumber (GInt32 i32) = (GInt64 n, None) \<and> sint n = sint i32)
   \<and> (\<exists>n. normalizeNumber (GInt64 i64) = (GInt64 n, None) \<and> sint n = sint i64)
   \<and> (\<exists>n. normalizeNumber (GUint8 u8) = (GInt64 n, None) \<and> sint n = uint u8)
   \<and> (\<exists>n. normalizeNumber (GUint16 u16) = (GInt64 n, None) \<and> sint n = uint u16)
   \<and> (\<exists>n. normalizeNumber (GUint32 u32) = (GInt64 n, None) \<and> sint n = uint u32)
   \<and> normalizeNumber (GFloat32 f) = (GFloat64 f, None)
   \<and> normalizeNumber (GFloat64 f) = (GFloat64 f, None)
   \<and> normalizeNumber (GUint64 u) = (GUint64 u, Some ''uint64 is not a supported type.'')
   \<and> minimum_Validate fl mi (GUint64 u) = Inr [ValidationError ''uint64 is not a supported type.'']
   \<and> maximum_Validate fl ma (GUint64 u) = Inr [ValidationError ''uint64 is not a supported type.'']
   \<and> multipleOf_Validate mo (GUint64 u) = Inr [ValidationError ''uint64 is not a supported type.'']"
proof -
  have ints: "sint (scast i8 :: 64 word) = sint i8" "sint (scast i16 :: 64 word) = sint i16"
    "sint (scast i32 :: 64 word) = sint i32"
    by (simp_all add: sint_scast_64)
  have uints: "sint (ucast u8 :: 64 word) = uint u8" "sint (ucast u16 :: 64 word) = uint u16"
    "sint (ucast u32 :: 64 word) = uint u32"
    by (simp_all add: sint_ucast_64)
  have validators:
    "minimum_Validate fl mi (GUint64 u) = Inr [ValidationError ''uint64 is not a supported type.'']"
    "maximum_Validate fl ma (GUint64 u) = Inr [ValidationError ''uint64 is not a supported type.'']"
    "multipleOf_Validate mo (GUint64 u) = Inr [ValidationError ''uint64 is not a supported type.'']"
    by (simp_all add: minimum_Validate_def maximum_Validate_def multipleOf_Validate_def)
  show ?thesis
    using ints uints validators by simp
qed

section \<open>multipleOf: the remainder and the zero divisor\<close>

lemma sint_word_of_int_64:
  "- (2 ^ 63) \<le> r \<Longrightarrow> r < 2 ^ 63 \<Longrightarrow> sint (word_of_int r :: 64 word) = r"
  by (simp add: sint_sbintrunc' signed_take_bit_int_eq_self)

lemma sint_int64_rem:
  assumes "m \<noteq> 0"
  shows "sint (int64_rem n m) = sgn (sint n) * (\<bar>sint n\<bar> mod \<bar>sint m\<bar>)"
proof -
  have nz: "sint m \<noteq> 0" using assms by (simp add: signed_eq_0_iff)
  have lo: "- (2 ^ 63) \<le> sint m" using sint_ge [of m] by simp
  have hi: "sint m < 2 ^ 63" using sint_lt [of m] by simp
  have b: "\<bar>sint m\<bar> \<le> 2 ^ 63" using lo hi by simp
  have p: "0 < \<bar>sint m\<bar>" using nz by simp
  have r0: "0 \<le> \<bar>sint n\<bar> mod \<bar>sint m\<bar>" using p by simp
  have r1: "\<bar>sint n\<bar> mod \<bar>sint m\<bar> < \<bar>sint m\<bar>" using p by (rule pos_mod_bound)
  let ?r = "sgn (sint n) * (\<bar>sint n\<bar> mod \<bar>sint m\<bar>)"
  have "\<bar>?r\<bar> \<le> \<bar>sint n\<bar> mod \<bar>sint m\<bar>" using r0 by (simp add: abs_mult abs_sgn_eq)
  with r1 b have "\<bar>?r\<bar> < 2 ^ 63" by linarith
  then have "- (2 ^ 63) \<le> ?r" and "?r < 2 ^ 63" by simp_all
  then have "sint (word_of_int ?r :: 64 word) = ?r"
    by (rule sint_word_of_int_64)
  then show ?thesis by (simp only: int64_rem_def signed_modulo_int_def)
qed

lemma int64_rem_zero_iff:
  assumes "m \<noteq> 0"
  shows "int64_rem n m = 0 \<longleftrightarrow> sint m dvd sint n"
proof -
  have "int64_rem n m = 0 \<longleftrightarrow> sint (int64_rem n m) = 0" by (simp add: signed_eq_0_iff)
  also have "\<dots> \<longleftrightarrow> sgn (sint n) * (\<bar>sint n\<bar> mod \<bar>sint m\<bar>) = 0"
    by (simp only: sint_int64_rem [OF assms])
  also have "\<dots> \<longleftrightarrow> \<bar>sint n\<bar> mod \<bar>sint m\<bar> = 0"
    by (cases "sint n = 0") (auto simp: sgn_if)
  also have "\<dots> \<longleftrightarrow> \<bar>sint m\<bar> dvd \<bar>sint n\<bar>" by (simp add: dvd_eq_mod_eq_0)
  also have "\<dots> \<longleftrightarrow> sint m dvd sint n" by simp
  finally show ?thesis .
qed

text \<open>
  C10. \<^verbatim>\<open>multipleOf.Validate\<close> computes \<^verbatim>\<open>n % d\<close> for every instance that
  normalizes to an \<^verbatim>\<open>int64\<close> \<open>n\<close>: the value computed is the remainder of the
  division that truncates towards zero, and with a divisor that is not zero the
  validator reports no error exactly when the divisor divides \<open>n\<close>, and one error
  otherwise. The division panics exactly when the divisor is zero and the instance
  normalizes to an integer, and the decoder accepts the literal \<^verbatim>\<open>0\<close>.
\<close>

theorem multipleOf_remainder_needs_nonzero_divisor:
  "multipleOf_UnmarshalJSON (JNumber ''0'') = Inr 0
   \<and> (multipleOf_Validate m v = Inl DivideByZero
        \<longleftrightarrow> m = 0 \<and> (\<exists>n. normalizeNumber v = (GInt64 n, None)))
   \<and> multipleOf_Validate m v \<noteq> Inl NilDereference
   \<and> (m \<noteq> 0 \<longrightarrow> sint (int64_rem n m) = sgn (sint n) * (\<bar>sint n\<bar> mod \<bar>sint m\<bar>))
   \<and> (m \<noteq> 0 \<longrightarrow> normalizeNumber v = (GInt64 n, None) \<longrightarrow>
        multipleOf_Validate m v =
          Inr (if int64_rem n m \<noteq> 0
               then [ValidationError (''Value must be a multiple of '' @ fmt_d (sint m) @ ''.'')]
               else []))
   \<and> (m \<noteq> 0 \<longrightarrow> normalizeNumber v = (GInt64 n, None) \<longrightarrow>
        (multipleOf_Validate m v = Inr [] \<longleftrightarrow> sint m dvd sint n))"
proof (intro conjI impI)
  show "multipleOf_UnmarshalJSON (JNumber ''0'') = Inr 0"
    by (simp add: multipleOf_UnmarshalJSON_def ParseInt_def digit_of_def)
next
  show "multipleOf_Validate m v = Inl DivideByZero
        \<longleftrightarrow> m = 0 \<and> (\<exists>n. normalizeNumber v = (GInt64 n, None))"
    by (cases v) (auto simp: multipleOf_Validate_def)
next
  show "multipleOf_Validate m v \<noteq> Inl NilDereference"
    by (cases v) (auto simp: multipleOf_Validate_def)
next
  assume "m \<noteq> 0"
  then show "sint (int64_rem n m) = sgn (sint n) * (\<bar>sint n\<bar> mod \<bar>sint m\<bar>)"
    by (rule sint_int64_rem)
next
  assume "m \<noteq> 0" and "normalizeNumber v = (GInt64 n, None)"
  then show "multipleOf_Validate m v =
          Inr (if int64_rem n m \<noteq> 0
               then [ValidationError (''Value must be a multiple of '' @ fmt_d (sint m) @ ''.'')]
               else [])"
    by (simp add: multipleOf_Validate_def)
next
  assume m: "m \<noteq> 0" and "normalizeNumber v = (GInt64 n, None)"
  then show "multipleOf_Validate m v = Inr [] \<longleftrightarrow> sint m dvd sint n"
    using int64_rem_zero_iff [OF m, of n] by (simp add: multipleOf_Validate_def)
qed

theorem multipleOf_remainder_witness:
  "(3 :: 64 word) \<noteq> 0 \<and> normalizeNumber (GInt64 10) = (GInt64 10, None)
   \<and> normalizeNumber (GInt64 9) = (GInt64 9, None)
   \<and> sint (int64_rem 10 3) = 1
   \<and> sint (int64_rem (- 7) 2) = - 1
   \<and> multipleOf_Validate 3 (GInt64 10) = Inr [ValidationError ''Value must be a multiple of 3.'']
   \<and> multipleOf_Validate 3 (GInt64 9) = Inr []
   \<and> multipleOf_Validate 0 (GInt64 10) = Inl DivideByZero
   \<and> multipleOf_UnmarshalJSON (JNumber ''0'') = Inr 0"
proof -
  have nz3: "(3 :: 64 word) \<noteq> 0" and nz2: "(2 :: 64 word) \<noteq> 0" by simp_all
  have n10: "normalizeNumber (GInt64 10) = (GInt64 10, None)"
    and n9: "normalizeNumber (GInt64 9) = (GInt64 9, None)" by simp_all
  note t10 = multipleOf_remainder_needs_nonzero_divisor [of 3 "GInt64 10" 10]
  note t9 = multipleOf_remainder_needs_nonzero_divisor [of 3 "GInt64 9" 9]
  note t7 = multipleOf_remainder_needs_nonzero_divisor [of 2 "GInt64 0" "- 7"]
  note t0 = multipleOf_remainder_needs_nonzero_divisor [of 0 "GInt64 10" 10]
  have "sint (int64_rem 10 3) = sgn (sint (10 :: 64 word)) * (\<bar>sint (10 :: 64 word)\<bar> mod \<bar>sint (3 :: 64 word)\<bar>)"
    by (rule t10 [THEN conjunct2, THEN conjunct2, THEN conjunct2, THEN conjunct1, rule_format, OF nz3])
  then have r10: "sint (int64_rem 10 3) = 1" by simp
  have "sint (int64_rem (- 7) 2) = sgn (sint (- 7 :: 64 word)) * (\<bar>sint (- 7 :: 64 word)\<bar> mod \<bar>sint (2 :: 64 word)\<bar>)"
    by (rule t7 [THEN conjunct2, THEN conjunct2, THEN conjunct2, THEN conjunct1, rule_format, OF nz2])
  then have r7: "sint (int64_rem (- 7) 2) = - 1" by simp
  have ne: "int64_rem 10 3 \<noteq> 0" using r10 by auto
  have f: "fmt_d (sint (3 :: 64 word)) = ''3''"
    by (simp add: fmt_d_def digit_char_def)
  have "multipleOf_Validate 3 (GInt64 10) =
          Inr (if int64_rem 10 3 \<noteq> 0
               then [ValidationError (''Value must be a multiple of '' @ fmt_d (sint (3 :: 64 word)) @ ''.'')]
               else [])"
    by (rule t10 [THEN conjunct2, THEN conjunct2, THEN conjunct2, THEN conjunct2, THEN conjunct1,
          rule_format, OF nz3 n10])
  then have a: "multipleOf_Validate 3 (GInt64 10) =
      Inr [ValidationError ''Value must be a multiple of 3.'']"
    using ne f by simp
  have "multipleOf_Validate 3 (GInt64 9) = Inr [] \<longleftrightarrow> sint (3 :: 64 word) dvd sint (9 :: 64 word)"
    by (rule t9 [THEN conjunct2, THEN conjunct2, THEN conjunct2, THEN conjunct2, THEN conjunct2,
          rule_format, OF nz3 n9])
  then have b: "multipleOf_Validate 3 (GInt64 9) = Inr []" by simp
  have "multipleOf_Validate 0 (GInt64 10) = Inl DivideByZero
        \<longleftrightarrow> (0 :: 64 word) = 0 \<and> (\<exists>n. normalizeNumber (GInt64 10) = (GInt64 n, None))"
    by (rule t0 [THEN conjunct2, THEN conjunct1])
  then have c: "multipleOf_Validate 0 (GInt64 10) = Inl DivideByZero" by simp
  have d: "multipleOf_UnmarshalJSON (JNumber ''0'') = Inr 0" by (rule t0 [THEN conjunct1])
  show ?thesis using nz3 n10 n9 r10 r7 a b c d by simp
qed

section \<open>Further properties of maximum, patternProperties and properties\<close>

text \<open>
  X1. \<^verbatim>\<open>maximum\<close> with an integer literal \<open>N\<close>, on an \<^verbatim>\<open>int64\<close> instance: no error
  exactly when the instance is below \<open>N\<close>, or equals \<open>N\<close> and the bound is not
  exclusive.
\<close>

theorem maximum_int_bound:
  assumes "CHR ''.'' \<notin> set lit" and "ParseInt lit = Some N"
  shows "maximum_Validate fl \<lparr>maximum.Number = lit, exclusive = e\<rparr> (GInt64 n)
     = Inr (if sint n < sint N \<or> \<not> e \<and> n = N then []
            else [ValidationError (''Value must be smaller than '' @ lit @ ''.'')])"
  using assms by (auto simp: maximum_Validate_def maximum_isLargerThanInt_def)

theorem maximum_int_bound_witness:
  "\<forall>fl. CHR ''.'' \<notin> set ''1'' \<and> ParseInt ''1'' = Some 1
   \<and> maximum_Validate fl \<lparr>maximum.Number = ''1'', exclusive = False\<rparr> (GInt64 1) = Inr []
   \<and> maximum_Validate fl \<lparr>maximum.Number = ''1'', exclusive = True\<rparr> (GInt64 1)
       = Inr [ValidationError ''Value must be smaller than 1.'']
   \<and> maximum_Validate fl \<lparr>maximum.Number = ''1'', exclusive = False\<rparr> (GInt64 2)
       = Inr [ValidationError ''Value must be smaller than 1.'']"
proof (intro allI)
  fix fl :: float_ops
  have a: "CHR ''.'' \<notin> set ''1''" by simp
  have b: "ParseInt ''1'' = Some 1" by (simp add: ParseInt_def digit_of_def)
  show "CHR ''.'' \<notin> set ''1'' \<and> ParseInt ''1'' = Some 1
   \<and> maximum_Validate fl \<lparr>maximum.Number = ''1'', exclusive = False\<rparr> (GInt64 1) = Inr []
   \<and> maximum_Validate fl \<lparr>maximum.Number = ''1'', exclusive = True\<rparr> (GInt64 1)
       = Inr [ValidationError ''Value must be smaller than 1.'']
   \<and> maximum_Validate fl \<lparr>maximum.Number = ''1'', exclusive = False\<rparr> (GInt64 2)
       = Inr [ValidationError ''Value must be smaller than 1.'']"
    using a b maximum_int_bound [OF a b, of fl False 1] maximum_int_bound [OF a b, of fl True 1]
      maximum_int_bound [OF a b, of fl False 2]
    by simp
qed

text \<open>
  X2. When the schema object has a member \<^verbatim>\<open>properties\<close>, \<^verbatim>\<open>SetSchema\<close> marks the
  \<^verbatim>\<open>patternProperties\<close> validator, which then reports no error on any instance.
\<close>

theorem patternProperties_defers_to_properties:
  assumes "map_of v ''properties'' \<noteq> None"
  shows "propertiesIsNeighbor (patternProperties_SetSchema p v) = True
       \<and> patternProperties_Validate nT (patternProperties_SetSchema p v) inst = Inr []"
  using assms by (simp add: patternProperties_SetSchema_def patternProperties_Validate_def)

theorem patternProperties_defers_witness:
  "\<forall>nT Sx re. map_of [(''properties'', JObject []), (''patternProperties'', JObject [])] ''properties'' \<noteq> None
   \<and> patternProperties_Validate nT
        (patternProperties_SetSchema
           \<lparr>patternProperties.EmbeddedSchemas = [(''^x'', Sx)], object = [(''^x'', re)],
            propertiesIsNeighbor = False\<rparr>
           [(''properties'', JObject []), (''patternProperties'', JObject [])])
        (GMap [(''x1'', GNil)]) = Inr []"
proof (intro allI)
  fix nT :: "gval \<Rightarrow> gval" and Sx :: "Schema option" and re :: Regexp
  let ?v = "[(''properties'', JObject []), (''patternProperties'', JObject [])]"
  have a: "map_of ?v ''properties'' \<noteq> None" by simp
  from patternProperties_defers_to_properties [OF a] a
  show "map_of ?v ''properties'' \<noteq> None
   \<and> patternProperties_Validate nT
        (patternProperties_SetSchema
           \<lparr>patternProperties.EmbeddedSchemas = [(''^x'', Sx)], object = [(''^x'', re)],
            propertiesIsNeighbor = False\<rparr> ?v)
        (GMap [(''x1'', GNil)]) = Inr []"
    by blast
qed

lemma properties_patterns_acc:
  "properties_patterns nT pp obj k x (acc, m) =
     map_sum id (\<lambda>(es, m'). (acc @ es, m')) (properties_patterns nT pp obj k x ([], m))"
proof (induction obj arbitrary: acc m)
  case Nil
  show ?case by simp
next
  case (Cons e obj)
  obtain key re where e: "e = (key, re)" by (cases e)
  let ?F = "\<lambda>a. map_sum id (\<lambda>(es, m'). (a @ es, m'))"
  show ?case
  proof (cases "MatchString re k")
    case False
    have "properties_patterns nT pp (e # obj) k x (acc, m) = properties_patterns nT pp obj k x (acc, m)"
      using e False by simp
    also have "\<dots> = ?F acc (properties_patterns nT pp obj k x ([], m))"
      by (rule Cons.IH)
    also have "properties_patterns nT pp obj k x ([], m) = properties_patterns nT pp (e # obj) k x ([], m)"
      using e False by simp
    finally show ?thesis .
  next
    case True
    show ?thesis
    proof (cases "Schema_Validate nT (lookup_schema (patternProperties.EmbeddedSchemas pp) key) x")
      case (Inl p)
      then show ?thesis using e True by simp
    next
      case (Inr errs)
      have l: "properties_patterns nT pp (e # obj) k x (acc, m)
          = properties_patterns nT pp obj k x (acc @ errs, True)"
        using e True Inr by simp
      have r: "properties_patterns nT pp (e # obj) k x ([], m)
          = properties_patterns nT pp obj k x (errs, True)"
        using e True Inr by simp
      have i1: "properties_patterns nT pp obj k x (acc @ errs, True)
          = ?F (acc @ errs) (properties_patterns nT pp obj k x ([], True))"
        by (rule Cons.IH)
      have i2: "properties_patterns nT pp obj k x (errs, True)
          = ?F errs (properties_patterns nT pp obj k x ([], True))"
        by (rule Cons.IH)
      have c: "?F acc (?F errs r) = ?F (acc @ errs) r" for r
        by (cases r) auto
      show ?thesis
        unfolding l r i1 by (subst i2) (simp only: c)
    qed
  qed
qed

lemma properties_member_acc:
  assumes "additionalPropertiesBool p \<or> additionalPropertiesObject p \<noteq> None"
  shows "properties_member nT p k x acc = map_sum id ((@) acc) (properties_member nT p k x [])"
proof -
  have pat: "properties_patterns nT pp obj k x (a, m) =
     map_sum id (\<lambda>(es, m'). (a @ es, m')) (properties_patterns nT pp obj k x ([], m))"
    for pp obj a m
    by (rule properties_patterns_acc)
  show ?thesis
  proof (cases "map_of (properties.EmbeddedSchemas p) k")
    case None
    show ?thesis
    proof (cases "properties.patternProperties p")
      case np: None
      show ?thesis using assms None np
        by (auto simp: properties_member_def split: option.splits sum.splits)
    next
      case (Some pp)
      show ?thesis
        using assms None Some
        apply (simp add: properties_member_def)
        apply (subst pat)
        apply (cases "properties_patterns nT pp (object pp) k x ([], False)")
         apply (auto split: option.splits sum.splits)
        done
    qed
  next
    case (Some sch)
    show ?thesis
    proof (cases "Schema_Validate nT sch x")
      case (Inl e)
      then show ?thesis using Some by (simp add: properties_member_def)
    next
      case (Inr errs)
      show ?thesis
      proof (cases "properties.patternProperties p")
        case None
        show ?thesis using Some Inr None
          by (simp add: properties_member_def)
      next
        case pp: (Some pp)
        have a: "properties_patterns nT pp (object pp) k x (acc @ errs, True)
          = map_sum id (\<lambda>(es, m'). ((acc @ errs) @ es, m'))
              (properties_patterns nT pp (object pp) k x ([], True))"
          by (rule pat)
        have b: "properties_patterns nT pp (object pp) k x (errs, True)
          = map_sum id (\<lambda>(es, m'). (errs @ es, m'))
              (properties_patterns nT pp (object pp) k x ([], True))"
          by (rule pat)
        show ?thesis
          using assms Some Inr pp
          apply (simp add: properties_member_def)
          apply (simp only: a b)
          apply (cases "properties_patterns nT pp (object pp) k x ([], True)")
           apply (auto split: option.splits sum.splits)
          done
      qed
    qed
  qed
qed


lemma properties_range_concat:
  assumes "additionalPropertiesBool p \<or> additionalPropertiesObject p \<noteq> None"
    and "\<forall>(k, x) \<in> set dataMap. \<exists>es. properties_member nT p k x [] = Inr es"
  shows "properties_range nT p dataMap acc =
     Inr (acc @ concat (map (\<lambda>(k, x). projr (properties_member nT p k x [])) dataMap))"
  using assms(2)
proof (induction dataMap arbitrary: acc)
  case Nil
  show ?case by simp
next
  case (Cons e dataMap)
  obtain k x where e: "e = (k, x)" by (cases e)
  from Cons.prems e obtain es where es: "properties_member nT p k x [] = Inr es" by auto
  from Cons.prems
  have rest: "\<forall>(k, x) \<in> set dataMap. \<exists>es. properties_member nT p k x [] = Inr es" by simp
  have "properties_member nT p k x acc = Inr (acc @ es)"
    by (simp add: properties_member_acc [OF assms(1), of nT k x acc] es)
  then show ?case using Cons.IH [OF rest, of "acc @ es"] e es by simp
qed

text \<open>
  X3. When additional properties are allowed, by the flag or by a schema, and no
  embedded schema panics, \<^verbatim>\<open>properties.Validate\<close> returns the errors of the members of
  the instance, each member's errors once, in the order of the visit.
\<close>

theorem properties_concatenates_when_additional_allowed:
  assumes "additionalPropertiesBool p \<or> additionalPropertiesObject p \<noteq> None"
    and "\<forall>(k, x) \<in> set dataMap. \<exists>es. properties_member nT p k x [] = Inr es"
  shows "properties_Validate nT p (GMap dataMap) =
     Inr (concat (map (\<lambda>(k, x). projr (properties_member nT p k x [])) dataMap))"
  using properties_range_concat [OF assms, of "[]"] by (simp add: properties_Validate_def)

theorem properties_concatenates_witness:
  "\<forall>nT.
     properties_member nT
       \<lparr>properties.EmbeddedSchemas =
          [(''a'', Some \<lparr>Validators = [oneOf_Validate nT \<lparr>oneOf.EmbeddedSchemas = []\<rparr>]\<rparr>)],
        patternProperties = None,
        additionalPropertiesBool = True, additionalPropertiesObject = None\<rparr> ''a'' GNil []
     = Inr [ValidationError ''Validation passed for 0 schemas in 'oneOf'.'']
   \<and> properties_member nT
       \<lparr>properties.EmbeddedSchemas =
          [(''a'', Some \<lparr>Validators = [oneOf_Validate nT \<lparr>oneOf.EmbeddedSchemas = []\<rparr>]\<rparr>)],
        patternProperties = None,
        additionalPropertiesBool = True, additionalPropertiesObject = None\<rparr> ''b'' GNil []
     = Inr []
   \<and> properties_Validate nT
       \<lparr>properties.EmbeddedSchemas =
          [(''a'', Some \<lparr>Validators = [oneOf_Validate nT \<lparr>oneOf.EmbeddedSchemas = []\<rparr>]\<rparr>)],
        patternProperties = None,
        additionalPropertiesBool = True, additionalPropertiesObject = None\<rparr>
       (GMap [(''a'', GNil), (''b'', GNil)])
     = Inr [ValidationError ''Validation passed for 0 schemas in 'oneOf'.'']"
proof (intro allI)
  fix nT :: "gval \<Rightarrow> gval"
  let ?p = "\<lparr>properties.EmbeddedSchemas =
          [(''a'', Some \<lparr>Validators = [oneOf_Validate nT \<lparr>oneOf.EmbeddedSchemas = []\<rparr>]\<rparr>)],
        patternProperties = None,
        additionalPropertiesBool = True, additionalPropertiesObject = None\<rparr>"
  let ?dm = "[(''a'', GNil), (''b'', GNil)]"
  have h1: "additionalPropertiesBool ?p \<or> additionalPropertiesObject ?p \<noteq> None" by simp
  have ma: "properties_member nT ?p ''a'' GNil []
     = Inr [ValidationError ''Validation passed for 0 schemas in 'oneOf'.'']"
    by (simp add: properties_member_def Schema_Validate_def oneOf_Validate_def fmt_d_def
        digit_char_def)
  have mb: "properties_member nT ?p ''b'' GNil [] = Inr []"
    by (simp add: properties_member_def)
  have h2: "\<forall>(k, x) \<in> set ?dm. \<exists>es. properties_member nT ?p k x [] = Inr es"
    using ma mb by simp
  from properties_concatenates_when_additional_allowed [OF h1 h2] ma mb
  have "properties_Validate nT ?p (GMap ?dm)
     = Inr [ValidationError ''Validation passed for 0 schemas in 'oneOf'.'']"
    by simp
  with ma mb show "properties_member nT ?p ''a'' GNil []
     = Inr [ValidationError ''Validation passed for 0 schemas in 'oneOf'.'']
   \<and> properties_member nT ?p ''b'' GNil [] = Inr []
   \<and> properties_Validate nT ?p (GMap ?dm)
     = Inr [ValidationError ''Validation passed for 0 schemas in 'oneOf'.'']"
    by simp
qed

end
